theory Spec2Isabelle
  imports Complex_Main
begin

unbundle bit_operations_syntax

section \<open>Data model\<close>

text \<open>
  The source is \<^verbatim>\<open>floats_video_to_waveforms_06_12_2024.py\<close>. Its numbers are
  float64; they are read here as real numbers (no rounding, no overflow), with the
  one place where float64 leaves the reals, division by zero, written out in
  \<open>np_true_divide\<close>.

  Python exceptions are values of \<open>error\<close>; what \<^verbatim>\<open>print\<close> writes is a list of
  \<open>printed\<close> entries.
\<close>

datatype error = AttributeError | TypeError | ValueError | IndexError

datatype printed = Text string | Number int

type_synonym point = "real \<times> real"

type_synonym bbox = "real \<times> real \<times> real \<times> real"

text \<open>
  A numpy array of shape \<open>(shape0, shape1, 2)\<close>: the last axis is a pair, the first
  two axes are nested lists, and the shape is kept beside the data as numpy does
  (a list of no rows would forget \<open>shape1\<close>).
\<close>

record 'a ndarray =
  shape0 :: nat
  shape1 :: nat
  rows :: "('a \<times> 'a) list list"

text \<open>The value of one float64 division.\<close>

datatype f64 = Fin real | PosInf | NegInf | NaN

text \<open>
  \<^verbatim>\<open>cv2.VideoCapture\<close>, as OpenCV documents it: \<^verbatim>\<open>read()\<close> decodes the next frame
  and advances \<^verbatim>\<open>CAP_PROP_POS_FRAMES\<close> (the 0-based index of the frame to be decoded
  next); \<^verbatim>\<open>CAP_PROP_FRAME_COUNT\<close> is what the container reports and is independent of
  the frames that really decode. \<open>nreads\<close> counts the calls of \<^verbatim>\<open>read()\<close>.
\<close>

record 'f capture =
  frames :: "'f list"
  pos_frames :: nat
  frame_count :: int
  nreads :: nat
  released :: bool

text \<open>
  The OpenCV capabilities the code calls, taken as parameters: the user's i-th
  region selection, the tracker (\<^verbatim>\<open>init\<close>, \<^verbatim>\<open>update\<close>), the drawing primitive
  \<^verbatim>\<open>cv2.rectangle\<close>, which changes the frame it is given, and the key that
  \<^verbatim>\<open>cv2.waitKey(1)\<close> returns in the n-th iteration of the loop.
\<close>

record ('f, 's) cv2 =
  selectROI :: "nat \<Rightarrow> 'f \<Rightarrow> bbox"
  tracker_init :: "'f \<Rightarrow> bbox \<Rightarrow> 's"
  tracker_update :: "'s \<Rightarrow> 'f \<Rightarrow> (bool \<times> bbox) \<times> 's"
  rectangle :: "'f \<Rightarrow> int \<times> int \<Rightarrow> int \<times> int \<Rightarrow> 'f"
  waitKey :: "nat \<Rightarrow> int"

text \<open>
  The first argument of \<^verbatim>\<open>rect_floats_video_to_waveform\<close>: its docstring asks for a
  path, its body hands the argument to \<^verbatim>\<open>track_objects_in_video\<close>, which calls
  \<^verbatim>\<open>.read()\<close> on it.
\<close>

datatype 'f video_arg = Path string | Capture "'f capture"

section \<open>numpy and Python primitives\<close>

text \<open>\<^verbatim>\<open>cap.read()\<close>: \<open>None\<close> is \<^verbatim>\<open>ret == False\<close>.\<close>

definition cap_read :: "'f capture \<Rightarrow> 'f option \<times> 'f capture" where
  "cap_read cap =
     (case frames cap of
        [] \<Rightarrow> (None, cap\<lparr>nreads := nreads cap + 1\<rparr>)
      | f # fs \<Rightarrow> (Some f, cap\<lparr>frames := fs, pos_frames := pos_frames cap + 1,
                                 nreads := nreads cap + 1\<rparr>))"

text \<open>\<^verbatim>\<open>int(x)\<close> on a float truncates towards zero.\<close>

definition py_int :: "real \<Rightarrow> int" where
  "py_int x = (if 0 \<le> x then \<lfloor>x\<rfloor> else \<lceil>x\<rceil>)"

text \<open>\<^verbatim>\<open>np.zeros((t, n, 2))\<close>: a negative dimension raises ValueError.\<close>

definition np_zeros :: "int \<Rightarrow> int \<Rightarrow> error + real ndarray" where
  "np_zeros t n =
     (if t < 0 \<or> n < 0 then Inl ValueError
      else Inr \<lparr>shape0 = nat t, shape1 = nat n,
                rows = replicate (nat t) (replicate (nat n) (0, 0))\<rparr>)"

text \<open>
  \<^verbatim>\<open>position[k, i] = c\<close>: numpy counts a negative \<open>k\<close> from the end and raises
  IndexError outside \<open>[-shape0, shape0)\<close>.
\<close>

definition setitem :: "real ndarray \<Rightarrow> int \<Rightarrow> nat \<Rightarrow> point \<Rightarrow> error + real ndarray" where
  "setitem a k i c =
     (let t = int (shape0 a); j = (if k < 0 then k + t else k)
      in if 0 \<le> j \<and> j < t \<and> i < shape1 a
         then Inr (a\<lparr>rows := (rows a)[nat j := (rows a ! nat j)[i := c]]\<rparr>)
         else Inl IndexError)"

text \<open>float64 division: numpy warns on a zero divisor and returns inf or nan.\<close>

definition np_true_divide :: "real \<Rightarrow> real \<Rightarrow> f64" where
  "np_true_divide x d =
     (if d \<noteq> 0 then Fin (x / d)
      else if 0 < x then PosInf else if x < 0 then NegInf else NaN)"

text \<open>\<^verbatim>\<open>position / ppm\<close> with a scalar \<open>ppm\<close>.\<close>

definition divide_scalar :: "real ndarray \<Rightarrow> real \<Rightarrow> f64 ndarray" where
  "divide_scalar a ppm =
     \<lparr>shape0 = shape0 a, shape1 = shape1 a,
      rows = map (map (\<lambda>(x, y). (np_true_divide x ppm, np_true_divide y ppm))) (rows a)\<rparr>"

text \<open>
  \<^verbatim>\<open>positions / ppm\<close> with a vector \<open>ppm\<close> of shape \<open>(m,)\<close>: numpy broadcasting
  aligns the trailing axes, so \<open>m\<close> meets the last axis of \<open>positions\<close>, whose
  length is 2. The shapes are compatible when \<open>m = 2\<close> (one divisor per coordinate)
  or \<open>m = 1\<close> (one divisor for all); otherwise numpy raises ValueError.
\<close>

definition divide_vector :: "real ndarray \<Rightarrow> real list \<Rightarrow> error + f64 ndarray" where
  "divide_vector a ppm =
     (case ppm of
        [d] \<Rightarrow> Inr \<lparr>shape0 = shape0 a, shape1 = shape1 a,
                    rows = map (map (\<lambda>(x, y). (np_true_divide x d, np_true_divide y d))) (rows a)\<rparr>
      | [d0, d1] \<Rightarrow> Inr \<lparr>shape0 = shape0 a, shape1 = shape1 a,
                    rows = map (map (\<lambda>(x, y). (np_true_divide x d0, np_true_divide y d1))) (rows a)\<rparr>
      | _ \<Rightarrow> Inl ValueError)"

text \<open>
  Line 152, \<^verbatim>\<open>np.linalg.norm(all_points[:,0] - all_points[:,1], axis = 1)\<close>, on an
  array of shape \<open>(N, 2, 2)\<close>: one pair of points per stake.
\<close>

definition derive_scale :: "(point \<times> point) list \<Rightarrow> real list" where
  "derive_scale all_points =
     map (\<lambda>(p, q). sqrt ((fst p - fst q)\<^sup>2 + (snd p - snd q)\<^sup>2)) all_points"

section \<open>The tracking loop\<close>

text \<open>Line 119: the centre of a bounding box \<open>(x, y, w, h)\<close>.\<close>

fun center :: "bbox \<Rightarrow> point" where
  "center (x, y, w, h) = (x + w / 2, y + h / 2)"

text \<open>Line 121: the box is drawn on the frame.\<close>

fun draw :: "('f, 's) cv2 \<Rightarrow> 'f \<Rightarrow> bbox \<Rightarrow> 'f" where
  "draw env frame (x, y, w, h) =
     rectangle env frame (py_int x, py_int y) (py_int (x + w), py_int (y + h))"

text \<open>
  Lines 116 to 121, the pass over the trackers for one frame: \<open>k\<close> is
  \<^verbatim>\<open>current_frame\<close>, \<open>i\<close> the index of the first tracker of the list. The frame a
  tracker is updated with is the frame as the trackers before it have left it.
\<close>

fun update_trackers ::
  "('f, 's) cv2 \<Rightarrow> int \<Rightarrow> nat \<Rightarrow> 's list \<Rightarrow> 'f \<Rightarrow> real ndarray
     \<Rightarrow> error + ('s list \<times> 'f \<times> real ndarray)" where
  "update_trackers env k i [] frame position = Inr ([], frame, position)"
| "update_trackers env k i (tracker # trackers) frame position =
     (case tracker_update env tracker frame of
        ((success, bbox), tracker') \<Rightarrow>
          if success then
            (case setitem position k i (center bbox) of
               Inl e \<Rightarrow> Inl e
             | Inr position' \<Rightarrow>
                 (case update_trackers env k (Suc i) trackers (draw env frame bbox) position' of
                    Inl e \<Rightarrow> Inl e
                  | Inr (trackers', frame', position'') \<Rightarrow>
                      Inr (tracker' # trackers', frame', position'')))
          else
            (case update_trackers env k (Suc i) trackers frame position of
               Inl e \<Rightarrow> Inl e
             | Inr (trackers', frame', position') \<Rightarrow>
                 Inr (tracker' # trackers', frame', position')))"

text \<open>
  Lines 110 to 126, the \<^verbatim>\<open>while True\<close> loop; \<open>n\<close> counts its iterations. It ends
  when \<^verbatim>\<open>read()\<close> fails or, with \<open>show\<close>, when the key is ESC.
\<close>

function track_loop ::
  "('f, 's) cv2 \<Rightarrow> bool \<Rightarrow> nat \<Rightarrow> 'f capture \<Rightarrow> 's list \<Rightarrow> real ndarray
     \<Rightarrow> error + ('f capture \<times> real ndarray)" where
  "track_loop env sh n cap trackers position =
     (case cap_read cap of
        (None, cap') \<Rightarrow> Inr (cap', position)
      | (Some frame, cap') \<Rightarrow>
          (case update_trackers env (int (pos_frames cap') - 1) 0 trackers frame position of
             Inl e \<Rightarrow> Inl e
           | Inr (trackers', frame', position') \<Rightarrow>
               if sh \<and> waitKey env n AND 255 = 27 then Inr (cap', position')
               else track_loop env sh (Suc n) cap' trackers' position'))"
  by pat_completeness auto
termination
  by (relation "measure (\<lambda>(env, sh, n, cap, trackers, position). length (frames cap))")
     (auto simp: cap_read_def split: list.splits)

declare track_loop.simps [simp del]

text \<open>
  Lines 97 to 104: one tracker for each stake, initialised on the first frame with
  the region selected for it.
\<close>

definition init_trackers :: "('f, 's) cv2 \<Rightarrow> 'f \<Rightarrow> int \<Rightarrow> 's list" where
  "init_trackers env frame num_stakes =
     map (\<lambda>i. tracker_init env frame (selectROI env i frame)) [0..<nat num_stakes]"

text \<open>
  \<^verbatim>\<open>track_objects_in_video(cap, num_stakes, show)\<close>. The result is what was
  printed and either the exception, or the capture as it is left together with what
  is returned (\<open>None\<close> for the bare \<^verbatim>\<open>return\<close> of line 95).
\<close>

definition track_objects_in_video ::
  "('f, 's) cv2 \<Rightarrow> 'f capture \<Rightarrow> int \<Rightarrow> bool
     \<Rightarrow> printed list \<times> (error + 'f capture \<times> real ndarray option)" where
  "track_objects_in_video env cap num_stakes sh =
     (case cap_read cap of
        (None, cap1) \<Rightarrow> ([Text ''Error: Could not read video frame.''], Inr (cap1, None))
      | (Some frame, cap1) \<Rightarrow>
          (let trackers = init_trackers env frame num_stakes;
               total_frames = frame_count cap1
           in case np_zeros total_frames num_stakes of
                Inl e \<Rightarrow> ([Number total_frames], Inl e)
              | Inr position \<Rightarrow>
                  (case track_loop env sh 0 cap1 trackers position of
                     Inl e \<Rightarrow> ([Number total_frames], Inl e)
                   | Inr (cap2, position') \<Rightarrow>
                       ([Number total_frames],
                        Inr (cap2\<lparr>released := True\<rparr>, Some position')))))"

section \<open>The two pipelines\<close>

text \<open>
  Lines 44 to 46: \<^verbatim>\<open>position[:, i, 1]\<close> for each \<open>i\<close> in \<^verbatim>\<open>range(num_stakes)\<close>;
  an index beyond the second axis raises IndexError.
\<close>

fun plot_columns :: "f64 ndarray \<Rightarrow> nat list \<Rightarrow> error + f64 list list" where
  "plot_columns a [] = Inr []"
| "plot_columns a (i # js) =
     (if i < shape1 a
      then (case plot_columns a js of
              Inl e \<Rightarrow> Inl e
            | Inr cs \<Rightarrow> Inr (map (\<lambda>r. snd (r ! i)) (rows a) # cs))
      else Inl IndexError)"

text \<open>
  \<^verbatim>\<open>rect_floats_video_to_waveform\<close>. Saving the figure and the array are effects
  outside the model. A path has no \<^verbatim>\<open>read\<close> attribute; \<^verbatim>\<open>None / ppm\<close> is a
  TypeError.
\<close>

definition rect_floats_video_to_waveform ::
  "('f, 's) cv2 \<Rightarrow> 'f video_arg \<Rightarrow> real \<Rightarrow> int \<Rightarrow> bool \<Rightarrow> printed list \<times> (error + f64 ndarray)" where
  "rect_floats_video_to_waveform env rectified_video_path ppm num_stakes sh =
     (case rectified_video_path of
        Path p \<Rightarrow> ([], Inl AttributeError)
      | Capture cap \<Rightarrow>
          (case track_objects_in_video env cap num_stakes sh of
             (out, Inl e) \<Rightarrow> (out, Inl e)
           | (out, Inr (cap', None)) \<Rightarrow> (out, Inl TypeError)
           | (out, Inr (cap', Some position)) \<Rightarrow>
               (let position' = divide_scalar position ppm
                in case plot_columns position' [0..<nat num_stakes] of
                     Inl e \<Rightarrow> (out, Inl e)
                   | Inr cs \<Rightarrow> (out, Inr position'))))"

text \<open>
  \<^verbatim>\<open>unrectified_to_waveform\<close>, from the opened capture on. \<^verbatim>\<open>orth.define_stakes\<close>
  belongs to the module \<^verbatim>\<open>orthorec_06_03_2024\<close>, which this file only imports; it
  is a parameter, returning the array \<^verbatim>\<open>all_points\<close>.
\<close>

definition unrectified_to_waveform ::
  "('f, 's) cv2 \<Rightarrow> ('f option \<Rightarrow> int \<Rightarrow> (point \<times> point) list) \<Rightarrow> 'f capture \<Rightarrow> int \<Rightarrow> bool
     \<Rightarrow> printed list \<times> (error + f64 ndarray)" where
  "unrectified_to_waveform env define_stakes cap num_stakes sh =
     (case cap_read cap of
        (frame, cap1) \<Rightarrow>
          (let all_points = define_stakes frame num_stakes;
               ppm = derive_scale all_points
           in case track_objects_in_video env cap1 num_stakes sh of
                (out, Inl e) \<Rightarrow> (out, Inl e)
              | (out, Inr (cap', None)) \<Rightarrow> (out, Inl TypeError)
              | (out, Inr (cap', Some positions)) \<Rightarrow> (out, divide_vector positions ppm)))"

section \<open>What the trackers report\<close>

text \<open>
  The specification speaks of a marker that is lost or tracked at a frame. These
  functions read that off the same calls the loop makes: \<open>pass_results\<close> is the list of
  \<open>(success, bbox)\<close> that the calls of \<^verbatim>\<open>tracker.update\<close> return in one pass over
  the trackers, \<open>pass_trackers\<close> the trackers after the pass, and \<open>loop_passes\<close> the
  \<^verbatim>\<open>current_frame\<close> and the results of every iteration of the loop, were no write
  to fail.
\<close>

fun pass_results :: "('f, 's) cv2 \<Rightarrow> 's list \<Rightarrow> 'f \<Rightarrow> (bool \<times> bbox) list" where
  "pass_results env [] frame = []"
| "pass_results env (tracker # trackers) frame =
     (case tracker_update env tracker frame of
        ((success, bbox), tracker') \<Rightarrow>
          (success, bbox) #
          pass_results env trackers (if success then draw env frame bbox else frame))"

fun pass_trackers :: "('f, 's) cv2 \<Rightarrow> 's list \<Rightarrow> 'f \<Rightarrow> 's list" where
  "pass_trackers env [] frame = []"
| "pass_trackers env (tracker # trackers) frame =
     (case tracker_update env tracker frame of
        ((success, bbox), tracker') \<Rightarrow>
          tracker' #
          pass_trackers env trackers (if success then draw env frame bbox else frame))"

function loop_passes ::
  "('f, 's) cv2 \<Rightarrow> bool \<Rightarrow> nat \<Rightarrow> 'f capture \<Rightarrow> 's list \<Rightarrow> (int \<times> (bool \<times> bbox) list) list" where
  "loop_passes env sh n cap trackers =
     (case cap_read cap of
        (None, cap') \<Rightarrow> []
      | (Some frame, cap') \<Rightarrow>
          (int (pos_frames cap') - 1, pass_results env trackers frame) #
          (if sh \<and> waitKey env n AND 255 = 27 then []
           else loop_passes env sh (Suc n) cap' (pass_trackers env trackers frame)))"
  by pat_completeness auto
termination
  by (relation "measure (\<lambda>(env, sh, n, cap, trackers). length (frames cap))")
     (auto simp: cap_read_def split: list.splits)

declare loop_passes.simps [simp del]

definition run_passes ::
  "('f, 's) cv2 \<Rightarrow> 'f capture \<Rightarrow> int \<Rightarrow> bool \<Rightarrow> (int \<times> (bool \<times> bbox) list) list" where
  "run_passes env cap num_stakes sh =
     (case cap_read cap of
        (None, cap1) \<Rightarrow> []
      | (Some frame, cap1) \<Rightarrow> loop_passes env sh 0 cap1 (init_trackers env frame num_stakes))"

text \<open>A well-formed array: the data has the shape the array declares.\<close>

definition well_shaped :: "'a ndarray \<Rightarrow> bool" where
  "well_shaped a \<longleftrightarrow>
     length (rows a) = shape0 a \<and> list_all (\<lambda>r. length r = shape1 a) (rows a)"

section \<open>Concrete videos and trackers\<close>

text \<open>
  A frame is its number in the video and the rectangles drawn on it so far. The
  tracker keeps its box where it was selected; it reports failure when the box has
  no area or when a drawn rectangle reaches into it (a tracker that reads the
  pixels of its window, as a correlation filter does, sees that rectangle).
\<close>

type_synonym demo_frame = "nat \<times> ((int \<times> int) \<times> (int \<times> int)) list"

fun overlaps :: "bbox \<Rightarrow> (int \<times> int) \<times> (int \<times> int) \<Rightarrow> bool" where
  "overlaps (x, y, w, h) ((x1, y1), (x2, y2)) \<longleftrightarrow>
     real_of_int x1 < x + w \<and> x < real_of_int x2 \<and> real_of_int y1 < y + h \<and> y < real_of_int y2"

fun box_update :: "bbox \<Rightarrow> demo_frame \<Rightarrow> (bool \<times> bbox) \<times> bbox" where
  "box_update (x, y, w, h) (n, drawn) =
     ((0 < w \<and> 0 < h \<and> \<not> list_ex (overlaps (x, y, w, h)) drawn, (x, y, w, h)), (x, y, w, h))"

definition box_cv2 :: "bbox list \<Rightarrow> int list \<Rightarrow> (demo_frame, bbox) cv2" where
  "box_cv2 rois keys =
     \<lparr>selectROI = (\<lambda>i f. if i < length rois then rois ! i else (0, 0, 0, 0)),
      tracker_init = (\<lambda>f roi. roi),
      tracker_update = box_update,
      rectangle = (\<lambda>f p q. (fst f, snd f @ [(p, q)])),
      waitKey = (\<lambda>n. if n < length keys then keys ! n else - 1)\<rparr>"

definition video :: "nat \<Rightarrow> int \<Rightarrow> demo_frame capture" where
  "video decodable reported =
     \<lparr>frames = map (\<lambda>n. (n, [])) [0..<decodable], pos_frames = 0,
      frame_count = reported, nreads = 0, released = False\<rparr>"

text \<open>The capture after one successful \<^verbatim>\<open>read()\<close>, and one cell of an array.\<close>

definition advance :: "'f capture \<Rightarrow> 'f list \<Rightarrow> 'f capture" where
  "advance cap fs =
     cap\<lparr>frames := fs, pos_frames := pos_frames cap + 1, nreads := nreads cap + 1\<rparr>"

definition cell :: "'a ndarray \<Rightarrow> nat \<Rightarrow> nat \<Rightarrow> 'a \<times> 'a" where
  "cell a f i = rows a ! f ! i"

section \<open>Shapes\<close>

lemma setitem_shape:
  "setitem a k i c = Inr a' \<Longrightarrow> shape0 a' = shape0 a \<and> shape1 a' = shape1 a"
  by (auto simp: setitem_def Let_def split: if_splits)

lemma setitem_well_shaped:
  "setitem a k i c = Inr a' \<Longrightarrow> well_shaped a \<Longrightarrow> well_shaped a'"
  by (auto simp: setitem_def Let_def well_shaped_def list_all_length nth_list_update
           split: if_splits)

lemma np_zeros_well_shaped: "np_zeros t n = Inr a \<Longrightarrow> well_shaped a"
  by (auto simp: np_zeros_def well_shaped_def list_all_length split: if_splits)

lemma np_zeros_shape:
  "np_zeros t n = Inr a \<Longrightarrow> 0 \<le> t \<and> 0 \<le> n \<and> shape0 a = nat t \<and> shape1 a = nat n"
  by (auto simp: np_zeros_def split: if_splits)

lemma update_trackers_shape:
  "update_trackers env k i trs f p = Inr (trs', f', p') \<Longrightarrow>
     shape0 p' = shape0 p \<and> shape1 p' = shape1 p"
proof (induction trs arbitrary: i f p trs' f' p')
  case Nil
  then show ?case by simp
next
  case (Cons tr trs)
  then show ?case
    by (fastforce split: prod.splits if_splits sum.splits dest: setitem_shape)
qed

lemma update_trackers_well_shaped:
  "update_trackers env k i trs f p = Inr (trs', f', p') \<Longrightarrow> well_shaped p \<Longrightarrow> well_shaped p'"
proof (induction trs arbitrary: i f p trs' f' p')
  case Nil
  then show ?case by simp
next
  case (Cons tr trs)
  then show ?case
    by (fastforce split: prod.splits if_splits sum.splits dest: setitem_well_shaped)
qed

text \<open>The loop, unfolded once on the frames that are left.\<close>

lemma cap_read_Nil:
  "frames cap = [] \<Longrightarrow> cap_read cap = (None, cap\<lparr>nreads := nreads cap + 1\<rparr>)"
  by (simp add: cap_read_def)

lemma cap_read_Cons: "frames cap = f # fs \<Longrightarrow> cap_read cap = (Some f, advance cap fs)"
  by (simp add: cap_read_def advance_def)

lemma advance_simps [simp]:
  "frames (advance cap fs) = fs"
  "pos_frames (advance cap fs) = Suc (pos_frames cap)"
  "frame_count (advance cap fs) = frame_count cap"
  by (simp_all add: advance_def)

lemma track_loop_Nil:
  "frames cap = [] \<Longrightarrow>
   track_loop env sh n cap trs p = Inr (cap\<lparr>nreads := nreads cap + 1\<rparr>, p)"
  by (simp add: track_loop.simps cap_read_Nil)

lemma track_loop_Cons:
  "frames cap = f # fs \<Longrightarrow>
   track_loop env sh n cap trs p =
     (case update_trackers env (int (pos_frames cap)) 0 trs f p of
        Inl e \<Rightarrow> Inl e
      | Inr (trs', f', p') \<Rightarrow>
          if sh \<and> waitKey env n AND 255 = 27 then Inr (advance cap fs, p')
          else track_loop env sh (Suc n) (advance cap fs) trs' p')"
  by (subst track_loop.simps) (simp add: cap_read_Cons)

lemma track_loop_shape:
  "track_loop env sh n cap trs p = Inr (cap', p') \<Longrightarrow>
     shape0 p' = shape0 p \<and> shape1 p' = shape1 p"
proof (induction "frames cap" arbitrary: cap n trs p)
  case Nil
  then show ?case by (simp add: track_loop_Nil)
next
  case (Cons f fs)
  from Cons.hyps(2) have fr: "frames cap = f # fs" by simp
  from Cons.prems obtain trs1 f1 p1 where
    u: "update_trackers env (int (pos_frames cap)) 0 trs f p = Inr (trs1, f1, p1)"
    by (auto simp: track_loop_Cons[OF fr] split: sum.splits)
  note s1 = update_trackers_shape[OF u]
  show ?case
  proof (cases "sh \<and> waitKey env n AND 255 = 27")
    case True
    with Cons.prems u s1 show ?thesis by (simp add: track_loop_Cons[OF fr])
  next
    case False
    with Cons.prems u have "track_loop env sh (Suc n) (advance cap fs) trs1 p1 = Inr (cap', p')"
      by (simp add: track_loop_Cons[OF fr])
    from Cons.hyps(1)[OF _ this] s1 show ?thesis by simp
  qed
qed

lemma track_loop_well_shaped:
  "track_loop env sh n cap trs p = Inr (cap', p') \<Longrightarrow> well_shaped p \<Longrightarrow> well_shaped p'"
proof (induction "frames cap" arbitrary: cap n trs p)
  case Nil
  then show ?case by (simp add: track_loop_Nil)
next
  case (Cons f fs)
  from Cons.hyps(2) have fr: "frames cap = f # fs" by simp
  from Cons.prems obtain trs1 f1 p1 where
    u: "update_trackers env (int (pos_frames cap)) 0 trs f p = Inr (trs1, f1, p1)"
    by (auto simp: track_loop_Cons[OF fr] split: sum.splits)
  note s1 = update_trackers_well_shaped[OF u Cons.prems(2)]
  show ?case
  proof (cases "sh \<and> waitKey env n AND 255 = 27")
    case True
    with Cons.prems u s1 show ?thesis by (simp add: track_loop_Cons[OF fr])
  next
    case False
    with Cons.prems u have "track_loop env sh (Suc n) (advance cap fs) trs1 p1 = Inr (cap', p')"
      by (simp add: track_loop_Cons[OF fr])
    from Cons.hyps(1)[OF _ this s1] show ?thesis by simp
  qed
qed

text \<open>A run that returns an array has read a first frame and gone through the loop.\<close>

lemma track_returns:
  assumes "track_objects_in_video env cap num_stakes sh = (out, Inr (cap', Some position))"
  shows "\<exists>f fs p0 cap2. frames cap = f # fs \<and>
           np_zeros (frame_count cap) num_stakes = Inr p0 \<and>
           track_loop env sh 0 (advance cap fs) (init_trackers env f num_stakes) p0 =
             Inr (cap2, position) \<and>
           out = [Number (frame_count cap)] \<and> cap' = cap2\<lparr>released := True\<rparr>"
proof (cases "frames cap")
  case Nil
  with assms show ?thesis by (simp add: track_objects_in_video_def cap_read_Nil)
next
  case (Cons f fs)
  with assms show ?thesis
    by (auto simp: track_objects_in_video_def cap_read_Cons Let_def split: sum.splits)
qed

lemma track_shape:
  assumes "track_objects_in_video env cap num_stakes sh = (out, Inr (cap', Some position))"
  shows "0 \<le> frame_count cap \<and> 0 \<le> num_stakes \<and> shape0 position = nat (frame_count cap) \<and>
         shape1 position = nat num_stakes \<and> well_shaped position"
proof -
  from track_returns[OF assms] obtain f fs p0 cap2 where
    z: "np_zeros (frame_count cap) num_stakes = Inr p0" and
    l: "track_loop env sh 0 (advance cap fs) (init_trackers env f num_stakes) p0 =
          Inr (cap2, position)"
    by blast
  from np_zeros_shape[OF z] np_zeros_well_shaped[OF z] track_loop_shape[OF l]
    track_loop_well_shaped[OF l]
  show ?thesis by simp
qed

lemma plot_columns_ok:
  "\<forall>i \<in> set js. i < shape1 a \<Longrightarrow> \<exists>cs. plot_columns a js = Inr cs"
  by (induction js) auto

lemma rect_returns:
  assumes "track_objects_in_video env cap num_stakes sh = (out, Inr (cap', Some position))"
  shows "rect_floats_video_to_waveform env (Capture cap) ppm num_stakes sh =
           (out, Inr (divide_scalar position ppm))"
proof -
  from track_shape[OF assms] have "shape1 (divide_scalar position ppm) = nat num_stakes"
    by (simp add: divide_scalar_def)
  then have "\<forall>i \<in> set [0..<nat num_stakes]. i < shape1 (divide_scalar position ppm)" by simp
  from plot_columns_ok[OF this] obtain cs where
    "plot_columns (divide_scalar position ppm) [0..<nat num_stakes] = Inr cs" ..
  with assms show ?thesis by (simp add: rect_floats_video_to_waveform_def Let_def)
qed

text \<open>With the path that its docstring asks for, the rectified pipeline stops at once.\<close>

lemma rect_path_argument:
  "rect_floats_video_to_waveform env (Path p) ppm num_stakes sh = ([], Inl AttributeError)"
  by (simp add: rect_floats_video_to_waveform_def)

lemma cell_divide_scalar:
  "f < length (rows a) \<Longrightarrow> i < length (rows a ! f) \<Longrightarrow>
   cell (divide_scalar a ppm) f i =
     (np_true_divide (fst (cell a f i)) ppm, np_true_divide (snd (cell a f i)) ppm)"
  by (simp add: cell_def divide_scalar_def split_beta)

section \<open>The cells a pass writes\<close>

lemma setitem_cell:
  assumes "setitem a k i c = Inr a'" "0 \<le> k" "well_shaped a"
  shows "cell a' j i' = (if j = nat k \<and> i' = i then c else cell a j i')"
proof -
  from assms(1,2) have k: "nat k < shape0 a" and i: "i < shape1 a"
    and a': "rows a' = (rows a)[nat k := (rows a ! nat k)[i := c]]"
    by (auto simp: setitem_def Let_def split: if_splits)
  from assms(3) k i have "nat k < length (rows a)" "i < length (rows a ! nat k)"
    by (simp_all add: well_shaped_def list_all_length)
  then show ?thesis
    by (simp add: cell_def a' nth_list_update)
qed

lemma setitem_ok_iff:
  "0 \<le> k \<Longrightarrow> (\<exists>a'. setitem a k i c = Inr a') \<longleftrightarrow> k < int (shape0 a) \<and> i < shape1 a"
  by (auto simp: setitem_def Let_def)

lemma setitem_error: "setitem a k i c = Inl e \<Longrightarrow> e = IndexError"
  by (auto simp: setitem_def Let_def split: if_splits)

lemma length_pass_results [simp]: "length (pass_results env trs f) = length trs"
  by (induction trs arbitrary: f) (auto split: prod.splits)

lemma length_pass_trackers [simp]: "length (pass_trackers env trs f) = length trs"
  by (induction trs arbitrary: f) (auto split: prod.splits)

lemma update_trackers_pass:
  "update_trackers env k i trs f p = Inr (trs', f', p') \<Longrightarrow> trs' = pass_trackers env trs f"
proof (induction trs arbitrary: i f p trs' f' p')
  case Nil
  then show ?case by simp
next
  case (Cons tr trs)
  then show ?case
    by (fastforce split: prod.splits if_splits sum.splits)
qed

lemma update_trackers_error: "update_trackers env k i trs f p = Inl e \<Longrightarrow> e = IndexError"
proof (induction trs arbitrary: i f p)
  case Nil
  then show ?case by simp
next
  case (Cons tr trs)
  then show ?case
    by (fastforce split: prod.splits if_splits sum.splits dest: setitem_error)
qed

text \<open>
  The cell of frame \<open>j\<close> and marker \<open>i\<close> after the pass for frame \<open>k\<close>: the centre
  of the box when \<open>j\<close> is \<open>k\<close> and the tracker of \<open>i\<close> reported success, the cell as it
  was otherwise.
\<close>

lemma update_trackers_cell:
  assumes "update_trackers env k i0 trs f p = Inr (trs', f', p')" "0 \<le> k" "well_shaped p"
  shows "cell p' j i =
           (if j = nat k \<and> i0 \<le> i \<and> i < i0 + length trs \<and> fst (pass_results env trs f ! (i - i0))
            then center (snd (pass_results env trs f ! (i - i0)))
            else cell p j i)"
  using assms
proof (induction trs arbitrary: i0 f p trs' f' p')
  case Nil
  then show ?case by auto
next
  case (Cons tr trs)
  obtain s b tr' where u: "tracker_update env tr f = ((s, b), tr')"
    by (metis surj_pair)
  show ?case
  proof (cases s)
    case True
    with Cons.prems(1) u obtain p1 trs1 where
      w: "setitem p k i0 (center b) = Inr p1" and
      r: "update_trackers env k (Suc i0) trs (draw env f b) p1 = Inr (trs1, f', p')"
      by (auto split: sum.splits)
    note c1 = setitem_cell[OF w Cons.prems(2,3), of j i]
    note ih = Cons.IH[OF r Cons.prems(2) setitem_well_shaped[OF w Cons.prems(3)]]
    show ?thesis
    proof (cases "i = i0")
      case True
      with ih c1 u \<open>s\<close> show ?thesis by simp
    next
      case False
      then have "i0 \<le> i \<longleftrightarrow> Suc i0 \<le> i" by auto
      moreover have "Suc i0 \<le> i \<Longrightarrow> i - i0 = Suc (i - Suc i0)" by simp
      ultimately show ?thesis using ih c1 u \<open>s\<close> False by auto
    qed
  next
    case False
    with Cons.prems(1) u obtain trs1 where
      r: "update_trackers env k (Suc i0) trs f p = Inr (trs1, f', p')"
      by (auto split: sum.splits)
    note ih = Cons.IH[OF r Cons.prems(2,3)]
    show ?thesis
    proof (cases "i = i0")
      case True
      with ih u \<open>\<not> s\<close> show ?thesis by simp
    next
      case ne: False
      then have "i0 \<le> i \<longleftrightarrow> Suc i0 \<le> i" by auto
      moreover have "Suc i0 \<le> i \<Longrightarrow> i - i0 = Suc (i - Suc i0)" by simp
      ultimately show ?thesis using ih u \<open>\<not> s\<close> ne by auto
    qed
  qed
qed

text \<open>
  The pass raises exactly when some tracker succeeds and the frame index is past
  the buffer.
\<close>

lemma update_trackers_ok_iff:
  assumes "0 \<le> k" "i0 + length trs \<le> shape1 p"
  shows "(\<exists>r. update_trackers env k i0 trs f p = Inr r) \<longleftrightarrow>
           ((\<exists>r \<in> set (pass_results env trs f). fst r) \<longrightarrow> k < int (shape0 p))"
  using assms(2)
proof (induction trs arbitrary: i0 f p)
  case Nil
  then show ?case by simp
next
  case (Cons tr trs)
  obtain s b tr' where u: "tracker_update env tr f = ((s, b), tr')"
    by (metis surj_pair)
  show ?case
  proof (cases s)
    case True
    show ?thesis
    proof (cases "k < int (shape0 p)")
      case k: True
      with Cons.prems setitem_ok_iff[OF assms(1), of p i0 "center b"] obtain p1 where
        w: "setitem p k i0 (center b) = Inr p1" by auto
      from setitem_shape[OF w] Cons.prems have "Suc i0 + length trs \<le> shape1 p1" by simp
      from Cons.IH[OF this, of "draw env f b"] setitem_shape[OF w] k u \<open>s\<close> w
      show ?thesis by (auto split: sum.splits)
    next
      case False
      with setitem_ok_iff[OF assms(1), of p i0 "center b"]
      have "\<not> (\<exists>a'. setitem p k i0 (center b) = Inr a')" by simp
      with u \<open>s\<close> False show ?thesis by (auto split: sum.splits)
    qed
  next
    case False
    from Cons.prems have "Suc i0 + length trs \<le> shape1 p" by simp
    from Cons.IH[OF this, of f] u False show ?thesis by (auto split: sum.splits)
  qed
qed

section \<open>The loop over the frames\<close>

lemma loop_passes_Nil: "frames cap = [] \<Longrightarrow> loop_passes env sh n cap trs = []"
  by (simp add: loop_passes.simps cap_read_Nil)

lemma loop_passes_Cons:
  "frames cap = f # fs \<Longrightarrow>
   loop_passes env sh n cap trs =
     (int (pos_frames cap), pass_results env trs f) #
     (if sh \<and> waitKey env n AND 255 = 27 then []
      else loop_passes env sh (Suc n) (advance cap fs) (pass_trackers env trs f))"
  by (subst loop_passes.simps) (simp add: cap_read_Cons)

lemma loop_passes_index:
  "(k, res) \<in> set (loop_passes env sh n cap trs) \<Longrightarrow> int (pos_frames cap) \<le> k"
proof (induction "frames cap" arbitrary: cap n trs)
  case Nil
  then show ?case by (simp add: loop_passes_Nil)
next
  case (Cons f fs)
  from Cons.hyps(2) have fr: "frames cap = f # fs" by simp
  from Cons.prems consider "k = int (pos_frames cap)"
    | "(k, res) \<in> set (loop_passes env sh (Suc n) (advance cap fs) (pass_trackers env trs f))"
    by (auto simp: loop_passes_Cons[OF fr] split: if_splits)
  then show ?case
  proof cases
    case 1
    then show ?thesis by simp
  next
    case 2
    from Cons.hyps(1)[OF _ 2] show ?thesis by simp
  qed
qed

lemma loop_passes_upper:
  "(k, res) \<in> set (loop_passes env sh n cap trs) \<Longrightarrow>
   k < int (pos_frames cap + length (frames cap))"
proof (induction "frames cap" arbitrary: cap n trs)
  case Nil
  then show ?case by (simp add: loop_passes_Nil)
next
  case (Cons f fs)
  from Cons.hyps(2) have fr: "frames cap = f # fs" by simp
  from Cons.prems consider "k = int (pos_frames cap)"
    | "(k, res) \<in> set (loop_passes env sh (Suc n) (advance cap fs) (pass_trackers env trs f))"
    by (auto simp: loop_passes_Cons[OF fr] split: if_splits)
  then show ?case
  proof cases
    case 1
    with fr show ?thesis by simp
  next
    case 2
    from Cons.hyps(1)[OF _ 2] fr show ?thesis by simp
  qed
qed

lemma loop_passes_length:
  "(k, res) \<in> set (loop_passes env sh n cap trs) \<Longrightarrow> length res = length trs"
proof (induction "frames cap" arbitrary: cap n trs)
  case Nil
  then show ?case by (simp add: loop_passes_Nil)
next
  case (Cons f fs)
  from Cons.hyps(2) have fr: "frames cap = f # fs" by simp
  from Cons.prems consider "res = pass_results env trs f"
    | "(k, res) \<in> set (loop_passes env sh (Suc n) (advance cap fs) (pass_trackers env trs f))"
    by (auto simp: loop_passes_Cons[OF fr] split: if_splits)
  then show ?case
  proof cases
    case 1
    then show ?thesis by simp
  next
    case 2
    from Cons.hyps(1)[OF _ 2] show ?thesis by simp
  qed
qed

text \<open>The loop leaves the rows of the frames before the capture's position as they are.\<close>

lemma track_loop_rows_below:
  "track_loop env sh n cap trs p = Inr (cap', p') \<Longrightarrow> well_shaped p \<Longrightarrow>
   j < pos_frames cap \<Longrightarrow> cell p' j i = cell p j i"
proof (induction "frames cap" arbitrary: cap n trs p)
  case Nil
  then show ?case by (simp add: track_loop_Nil)
next
  case (Cons f fs)
  from Cons.hyps(2) have fr: "frames cap = f # fs" by simp
  from Cons.prems obtain trs1 f1 p1 where
    u: "update_trackers env (int (pos_frames cap)) 0 trs f p = Inr (trs1, f1, p1)"
    by (auto simp: track_loop_Cons[OF fr] split: sum.splits)
  from update_trackers_cell[OF u _ Cons.prems(2), of j i] Cons.prems(3)
  have c1: "cell p1 j i = cell p j i" by simp
  show ?case
  proof (cases "sh \<and> waitKey env n AND 255 = 27")
    case True
    with Cons.prems u c1 show ?thesis by (simp add: track_loop_Cons[OF fr])
  next
    case False
    with Cons.prems u have "track_loop env sh (Suc n) (advance cap fs) trs1 p1 = Inr (cap', p')"
      by (simp add: track_loop_Cons[OF fr])
    from Cons.hyps(1)[OF _ this update_trackers_well_shaped[OF u Cons.prems(2)]] Cons.prems(3) c1
    show ?thesis by simp
  qed
qed

text \<open>
  The cell of a frame and a marker after the loop: the centre of the box when the
  marker's tracker reported success at that frame, the cell as it was otherwise.
\<close>

lemma track_loop_cell:
  "track_loop env sh n cap trs p = Inr (cap', p') \<Longrightarrow> well_shaped p \<Longrightarrow>
   (k, res) \<in> set (loop_passes env sh n cap trs) \<Longrightarrow> i < length res \<Longrightarrow>
   cell p' (nat k) i = (if fst (res ! i) then center (snd (res ! i)) else cell p (nat k) i)"
proof (induction "frames cap" arbitrary: cap n trs p)
  case Nil
  then show ?case by (simp add: loop_passes_Nil)
next
  case (Cons f fs)
  from Cons.hyps(2) have fr: "frames cap = f # fs" by simp
  from Cons.prems(1) obtain trs1 f1 p1 where
    u: "update_trackers env (int (pos_frames cap)) 0 trs f p = Inr (trs1, f1, p1)"
    by (auto simp: track_loop_Cons[OF fr] split: sum.splits)
  note ws1 = update_trackers_well_shaped[OF u Cons.prems(2)]
  note trs1 = update_trackers_pass[OF u]
  note c1 = update_trackers_cell[OF u _ Cons.prems(2), of "nat k" i, simplified]
  from Cons.prems(3) consider
      (head) "k = int (pos_frames cap)" "res = pass_results env trs f"
    | (tail) "\<not> (sh \<and> waitKey env n AND 255 = 27)"
        "(k, res) \<in> set (loop_passes env sh (Suc n) (advance cap fs) (pass_trackers env trs f))"
    by (auto simp: loop_passes_Cons[OF fr] split: if_splits)
  then show ?case
  proof cases
    case head
    have "cell p' (nat k) i = cell p1 (nat k) i"
    proof (cases "sh \<and> waitKey env n AND 255 = 27")
      case True
      with Cons.prems(1) u show ?thesis by (simp add: track_loop_Cons[OF fr])
    next
      case False
      with Cons.prems(1) u have
        "track_loop env sh (Suc n) (advance cap fs) trs1 p1 = Inr (cap', p')"
        by (simp add: track_loop_Cons[OF fr])
      from track_loop_rows_below[OF this ws1, of "nat k" i] head(1) show ?thesis by simp
    qed
    with c1 head Cons.prems(4) show ?thesis by simp
  next
    case tail
    with Cons.prems(1) u have
      l: "track_loop env sh (Suc n) (advance cap fs) trs1 p1 = Inr (cap', p')"
      by (simp add: track_loop_Cons[OF fr])
    from loop_passes_index[OF tail(2)] have "int (pos_frames cap) < k" by simp
    with c1 have "cell p1 (nat k) i = cell p (nat k) i" by auto
    with Cons.hyps(1)[OF _ l ws1 tail(2)[folded trs1] Cons.prems(4)]
    show ?thesis by simp
  qed
qed

text \<open>The loop returns exactly when no successful update falls on a frame past the buffer.\<close>

lemma track_loop_ok_iff:
  "length trs \<le> shape1 p \<Longrightarrow>
   (\<exists>r. track_loop env sh n cap trs p = Inr r) \<longleftrightarrow>
     (\<forall>(k, res) \<in> set (loop_passes env sh n cap trs).
        (\<exists>r \<in> set res. fst r) \<longrightarrow> k < int (shape0 p))"
proof (induction "frames cap" arbitrary: cap n trs p)
  case Nil
  then show ?case by (simp add: loop_passes_Nil track_loop_Nil)
next
  case (Cons f fs)
  from Cons.hyps(2) have fr: "frames cap = f # fs" by simp
  let ?k = "int (pos_frames cap)"
  from Cons.prems have le: "0 + length trs \<le> shape1 p" by simp
  note ok = update_trackers_ok_iff[OF _ le, of ?k env f, simplified]
  show ?case
  proof (cases "update_trackers env ?k 0 trs f p")
    case (Inl e)
    with ok have "(\<exists>r \<in> set (pass_results env trs f). fst r) \<and> \<not> ?k < int (shape0 p)" by auto
    with Inl show ?thesis by (auto simp: track_loop_Cons[OF fr] loop_passes_Cons[OF fr])
  next
    case (Inr r)
    obtain trs1 f1 p1 where r: "r = (trs1, f1, p1)" by (cases r) auto
    note u = Inr[unfolded r]
    from ok u have h: "(\<exists>r \<in> set (pass_results env trs f). fst r) \<longrightarrow> ?k < int (shape0 p)"
      by auto
    note trs1 = update_trackers_pass[OF u]
    note sh1 = update_trackers_shape[OF u]
    show ?thesis
    proof (cases "sh \<and> waitKey env n AND 255 = 27")
      case True
      with u h show ?thesis by (auto simp: track_loop_Cons[OF fr] loop_passes_Cons[OF fr])
    next
      case False
      from Cons.prems trs1 sh1 have "length trs1 \<le> shape1 p1" by simp
      from Cons.hyps(1)[OF _ this, of "advance cap fs" "Suc n"] sh1 trs1
      have "(\<exists>r. track_loop env sh (Suc n) (advance cap fs) trs1 p1 = Inr r) \<longleftrightarrow>
              (\<forall>(k, res) \<in> set (loop_passes env sh (Suc n) (advance cap fs)
                                  (pass_trackers env trs f)).
                 (\<exists>r \<in> set res. fst r) \<longrightarrow> k < int (shape0 p))"
        by simp
      moreover from u have
        "track_loop env sh n cap trs p = track_loop env sh (Suc n) (advance cap fs) trs1 p1"
        by (simp add: track_loop_Cons[OF fr] if_not_P[OF False])
      moreover have
        "loop_passes env sh n cap trs =
           (?k, pass_results env trs f) #
           loop_passes env sh (Suc n) (advance cap fs) (pass_trackers env trs f)"
        by (simp add: loop_passes_Cons[OF fr] if_not_P[OF False])
      ultimately show ?thesis using h by simp
    qed
  qed
qed

lemma track_loop_error: "track_loop env sh n cap trs p = Inl e \<Longrightarrow> e = IndexError"
proof (induction "frames cap" arbitrary: cap n trs p)
  case Nil
  then show ?case by (simp add: track_loop_Nil)
next
  case (Cons f fs)
  from Cons.hyps(2) have fr: "frames cap = f # fs" by simp
  show ?case
  proof (cases "update_trackers env (int (pos_frames cap)) 0 trs f p")
    case (Inl e')
    with Cons.prems update_trackers_error[OF Inl] show ?thesis
      by (simp add: track_loop_Cons[OF fr])
  next
    case (Inr r)
    obtain trs1 f1 p1 where r: "r = (trs1, f1, p1)" by (cases r) auto
    from Cons.prems Inr r have
      "track_loop env sh (Suc n) (advance cap fs) trs1 p1 = Inl e"
      by (auto simp: track_loop_Cons[OF fr] split: if_splits)
    from Cons.hyps(1)[OF _ this] show ?thesis by simp
  qed
qed

section \<open>Runs of the tracking function and of the pipelines\<close>

lemma run_passes_Cons:
  "frames cap = f # fs \<Longrightarrow>
   run_passes env cap num_stakes sh =
     loop_passes env sh 0 (advance cap fs) (init_trackers env f num_stakes)"
  by (simp add: run_passes_def cap_read_Cons)

lemma length_init_trackers [simp]:
  "length (init_trackers env f num_stakes) = nat num_stakes"
  by (simp add: init_trackers_def)

lemma cell_np_zeros:
  "np_zeros t n = Inr p0 \<Longrightarrow> j < nat t \<Longrightarrow> i < nat n \<Longrightarrow> cell p0 j i = (0, 0)"
  by (auto simp: np_zeros_def cell_def split: if_splits)

lemma unrectified_returns:
  assumes "cap_read cap0 = (frame, cap)"
    and "track_objects_in_video env cap num_stakes sh = (out, Inr (cap', Some positions))"
  shows "unrectified_to_waveform env define_stakes cap0 num_stakes sh =
           (out, divide_vector positions (derive_scale (define_stakes frame num_stakes)))"
  using assms by (simp add: unrectified_to_waveform_def Let_def)

text \<open>Every frame the loop of a run passes over lies after the first and before the end
  of what the capture decodes.\<close>

lemma run_passes_upper:
  assumes "(k, res) \<in> set (run_passes env cap num_stakes sh)"
  shows "1 \<le> k \<and> k < int (pos_frames cap + length (frames cap))"
proof (cases "frames cap")
  case Nil
  with assms show ?thesis by (simp add: run_passes_def cap_read_Nil)
next
  case (Cons f fs)
  from assms[unfolded run_passes_Cons[OF Cons]]
  have "(k, res) \<in> set (loop_passes env sh 0 (advance cap fs) (init_trackers env f num_stakes))" .
  from loop_passes_index[OF this] loop_passes_upper[OF this] Cons show ?thesis by simp
qed

text \<open>A negative dimension stops the run at \<^verbatim>\<open>np.zeros\<close>; otherwise the run returns
  exactly when no successful update falls on a frame past the buffer.\<close>

lemma track_negative_dimension:
  assumes "frames cap \<noteq> []" "frame_count cap < 0 \<or> num_stakes < 0"
  shows "track_objects_in_video env cap num_stakes sh =
           ([Number (frame_count cap)], Inl ValueError)"
proof -
  from assms(1) obtain f fs where fr: "frames cap = f # fs" by (cases "frames cap") auto
  from assms(2) have "np_zeros (frame_count cap) num_stakes = Inl ValueError"
    by (auto simp: np_zeros_def)
  then show ?thesis
    by (simp add: track_objects_in_video_def cap_read_Cons[OF fr] Let_def)
qed

lemma track_in_bounds_iff:
  assumes "frames cap \<noteq> []" "0 \<le> frame_count cap" "0 \<le> num_stakes"
  shows "if \<forall>(k, res) \<in> set (run_passes env cap num_stakes sh).
              (\<exists>r \<in> set res. fst r) \<longrightarrow> 0 \<le> k \<and> k < frame_count cap
         then \<exists>cap' position. track_objects_in_video env cap num_stakes sh =
                ([Number (frame_count cap)], Inr (cap', Some position))
         else track_objects_in_video env cap num_stakes sh =
                ([Number (frame_count cap)], Inl IndexError)"
proof -
  from assms(1) obtain f fs where fr: "frames cap = f # fs" by (cases "frames cap") auto
  from assms(2,3) obtain p0 where z: "np_zeros (frame_count cap) num_stakes = Inr p0"
    by (auto simp: np_zeros_def)
  let ?trs = "init_trackers env f num_stakes"
  let ?cap = "advance cap fs"
  from np_zeros_shape[OF z] have s: "shape0 p0 = nat (frame_count cap)" "length ?trs \<le> shape1 p0"
    by simp_all
  have t: "track_objects_in_video env cap num_stakes sh =
          (case track_loop env sh 0 ?cap ?trs p0 of
             Inl e \<Rightarrow> ([Number (frame_count cap)], Inl e)
           | Inr (cap2, position') \<Rightarrow>
               ([Number (frame_count cap)], Inr (cap2\<lparr>released := True\<rparr>, Some position')))"
    by (simp add: track_objects_in_video_def cap_read_Cons[OF fr] Let_def z
             split: sum.splits prod.splits)
  have iff: "(\<exists>r. track_loop env sh 0 ?cap ?trs p0 = Inr r) \<longleftrightarrow>
        (\<forall>(k, res) \<in> set (run_passes env cap num_stakes sh).
           (\<exists>r \<in> set res. fst r) \<longrightarrow> 0 \<le> k \<and> k < frame_count cap)"
  proof -
    have "0 \<le> k" if "(k, res) \<in> set (loop_passes env sh 0 ?cap ?trs)" for k res
      using loop_passes_index[OF that] by simp
    with track_loop_ok_iff[OF s(2), of env sh 0 ?cap] s(1) assms(2) show ?thesis
      by (auto simp: run_passes_Cons[OF fr])
  qed
  show ?thesis
  proof (cases "track_loop env sh 0 ?cap ?trs p0")
    case (Inl e)
    with track_loop_error[OF Inl] iff t show ?thesis by auto
  next
    case (Inr r)
    with iff t show ?thesis by (auto split: prod.splits)
  qed
qed

text \<open>A capture with no frame left: the diagnostic, and nothing returned.\<close>

lemma track_unreadable:
  "frames cap = [] \<Longrightarrow>
   track_objects_in_video env cap num_stakes sh =
     ([Text ''Error: Could not read video frame.''],
      Inr (cap\<lparr>nreads := nreads cap + 1\<rparr>, None))"
  by (simp add: track_objects_in_video_def cap_read_Nil)

section \<open>Concrete runs\<close>

lemmas run_simps = track_objects_in_video_def cap_read_def video_def box_cv2_def
  init_trackers_def np_zeros_def setitem_def Let_def py_int_def upt_rec track_loop.simps
  eval_nat_numeral

lemmas pass_simps = run_passes_def loop_passes.simps cap_read_def video_def box_cv2_def
  init_trackers_def Let_def py_int_def upt_rec eval_nat_numeral

lemma run_one_marker:
  "track_objects_in_video (box_cv2 [(10, 10, 20, 20)] []) (video 3 3) 1 False =
   ([Number 3],
    Inr (\<lparr>frames = [], pos_frames = 3, frame_count = 3, nreads = 4, released = True\<rparr>,
         Some \<lparr>shape0 = 3, shape1 = 1, rows = [[(0, 0)], [(20, 20)], [(20, 20)]]\<rparr>))"
  by (simp add: run_simps)

lemma passes_one_marker:
  "run_passes (box_cv2 [(10, 10, 20, 20)] []) (video 3 3) 1 False =
     [(1, [(True, 10, 10, 20, 20)]), (2, [(True, 10, 10, 20, 20)])]"
  by (simp add: pass_simps)

lemma rect_one_marker:
  "rect_floats_video_to_waveform (box_cv2 [(10, 10, 20, 20)] []) (Capture (video 3 3)) 10 1 False =
     ([Number 3], Inr \<lparr>shape0 = 3, shape1 = 1, rows = [[(Fin 0, Fin 0)], [(Fin 2, Fin 2)], [(Fin 2, Fin 2)]]\<rparr>)"
  using rect_returns[OF run_one_marker, of 10]
  by (simp add: divide_scalar_def np_true_divide_def)

lemma rect_zero_scale:
  "rect_floats_video_to_waveform (box_cv2 [(10, 10, 20, 20)] []) (Capture (video 3 3)) 0 1 False =
     ([Number 3], Inr \<lparr>shape0 = 3, shape1 = 1,
        rows = [[(NaN, NaN)], [(PosInf, PosInf)], [(PosInf, PosInf)]]\<rparr>)"
  using rect_returns[OF run_one_marker, of 0]
  by (simp add: divide_scalar_def np_true_divide_def)

lemma rect_negative_scale:
  "rect_floats_video_to_waveform (box_cv2 [(10, 10, 20, 20)] []) (Capture (video 3 3)) (- 10) 1 False =
     ([Number 3], Inr \<lparr>shape0 = 3, shape1 = 1,
        rows = [[(Fin 0, Fin 0)], [(Fin (- 2), Fin (- 2))], [(Fin (- 2), Fin (- 2))]]\<rparr>)"
  using rect_returns[OF run_one_marker, of "- 10"]
  by (simp add: divide_scalar_def np_true_divide_def)

lemma run_two_markers:
  "track_objects_in_video (box_cv2 [(10, 10, 20, 20), (25, 10, 20, 20)] []) (video 3 3) 2 False =
   ([Number 3],
    Inr (\<lparr>frames = [], pos_frames = 3, frame_count = 3, nreads = 4, released = True\<rparr>,
         Some \<lparr>shape0 = 3, shape1 = 2,
               rows = [[(0, 0), (0, 0)], [(20, 20), (0, 0)], [(20, 20), (0, 0)]]\<rparr>))"
  by (simp add: run_simps)

lemma passes_two_markers:
  "run_passes (box_cv2 [(10, 10, 20, 20), (25, 10, 20, 20)] []) (video 3 3) 2 False =
     [(1, [(True, 10, 10, 20, 20), (False, 25, 10, 20, 20)]),
      (2, [(True, 10, 10, 20, 20), (False, 25, 10, 20, 20)])]"
  by (simp add: pass_simps)

lemma run_second_marker_alone:
  "track_objects_in_video (box_cv2 [(25, 10, 20, 20)] []) (video 3 3) 1 False =
   ([Number 3],
    Inr (\<lparr>frames = [], pos_frames = 3, frame_count = 3, nreads = 4, released = True\<rparr>,
         Some \<lparr>shape0 = 3, shape1 = 1, rows = [[(0, 0)], [(35, 20)], [(35, 20)]]\<rparr>))"
  by (simp add: run_simps)

lemma run_lost_marker:
  "track_objects_in_video (box_cv2 [(5, 5, 0, 0)] []) (video 2 2) 1 False =
   ([Number 2],
    Inr (\<lparr>frames = [], pos_frames = 2, frame_count = 2, nreads = 3, released = True\<rparr>,
         Some \<lparr>shape0 = 2, shape1 = 1, rows = [[(0, 0)], [(0, 0)]]\<rparr>))"
  by (simp add: run_simps)

lemma passes_lost_marker:
  "run_passes (box_cv2 [(5, 5, 0, 0)] []) (video 2 2) 1 False = [(1, [(False, 5, 5, 0, 0)])]"
  by (simp add: pass_simps)

lemma run_origin_marker:
  "track_objects_in_video (box_cv2 [(- 4, - 4, 8, 8)] []) (video 2 2) 1 False =
   ([Number 2],
    Inr (\<lparr>frames = [], pos_frames = 2, frame_count = 2, nreads = 3, released = True\<rparr>,
         Some \<lparr>shape0 = 2, shape1 = 1, rows = [[(0, 0)], [(0, 0)]]\<rparr>))"
  by (simp add: run_simps)

lemma passes_origin_marker:
  "run_passes (box_cv2 [(- 4, - 4, 8, 8)] []) (video 2 2) 1 False =
     [(1, [(True, - 4, - 4, 8, 8)])]"
  by (simp add: pass_simps)

lemma run_undershoot:
  "track_objects_in_video (box_cv2 [(10, 10, 20, 20)] []) (video 3 1) 1 False =
     ([Number 1], Inl IndexError)"
  by (simp add: run_simps)

lemma passes_undershoot:
  "run_passes (box_cv2 [(10, 10, 20, 20)] []) (video 3 1) 1 False =
     [(1, [(True, 10, 10, 20, 20)]), (2, [(True, 10, 10, 20, 20)])]"
  by (simp add: pass_simps)

lemma read_video3: "cap_read (video 3 3) =
   (Some (0, []), \<lparr>frames = [(1, []), (2, [])], pos_frames = 1, frame_count = 3, nreads = 1, released = False\<rparr>)"
  by (simp add: cap_read_def video_def upt_rec)

lemma run_one_after_read:
  "track_objects_in_video (box_cv2 [(10, 10, 20, 20)] [])
     \<lparr>frames = [(1, []), (2, [])], pos_frames = 1, frame_count = 3, nreads = 1, released = False\<rparr>
     1 False =
   ([Number 3],
    Inr (\<lparr>frames = [], pos_frames = 3, frame_count = 3, nreads = 4, released = True\<rparr>,
         Some \<lparr>shape0 = 3, shape1 = 1, rows = [[(0, 0)], [(0, 0)], [(20, 20)]]\<rparr>))"
  by (simp add: run_simps)

lemma run_two_apart:
  "track_objects_in_video (box_cv2 [(10, 10, 20, 20), (100, 10, 20, 20)] [])
     \<lparr>frames = [(1, []), (2, [])], pos_frames = 1, frame_count = 3, nreads = 1, released = False\<rparr>
     2 False =
   ([Number 3],
    Inr (\<lparr>frames = [], pos_frames = 3, frame_count = 3, nreads = 4, released = True\<rparr>,
         Some \<lparr>shape0 = 3, shape1 = 2,
               rows = [[(0, 0), (0, 0)], [(0, 0), (0, 0)], [(20, 20), (110, 20)]]\<rparr>))"
  by (simp add: run_simps)

lemma run_three_apart:
  "track_objects_in_video (box_cv2 [(10, 10, 20, 20), (100, 10, 20, 20), (200, 10, 20, 20)] [])
     \<lparr>frames = [(1, []), (2, [])], pos_frames = 1, frame_count = 3, nreads = 1, released = False\<rparr>
     3 False =
   ([Number 3],
    Inr (\<lparr>frames = [], pos_frames = 3, frame_count = 3, nreads = 4, released = True\<rparr>,
         Some \<lparr>shape0 = 3, shape1 = 3,
               rows = [[(0, 0), (0, 0), (0, 0)], [(0, 0), (0, 0), (0, 0)],
                       [(20, 20), (110, 20), (210, 20)]]\<rparr>))"
  by (simp add: run_simps)

lemma derive_two: "derive_scale [((0, 0), (0, 2)), ((0, 0), (3, 4))] = [2, 5]"
proof -
  have "sqrt ((0 - 3)\<^sup>2 + (0 - 4)\<^sup>2) = (5::real)" "sqrt ((0 - 0)\<^sup>2 + (0 - 2)\<^sup>2) = (2::real)"
    by (rule real_sqrt_unique; simp)+
  then show ?thesis by (simp add: derive_scale_def)
qed

lemma derive_three:
  "derive_scale [((0, 0), (0, 2)), ((0, 0), (3, 4)), ((0, 0), (0, 2))] = [2, 5, 2]"
proof -
  have "sqrt ((0 - 3)\<^sup>2 + (0 - 4)\<^sup>2) = (5::real)" "sqrt ((0 - 0)\<^sup>2 + (0 - 2)\<^sup>2) = (2::real)"
    by (rule real_sqrt_unique; simp)+
  then show ?thesis by (simp add: derive_scale_def)
qed

lemma run_overshoot:
  "track_objects_in_video (box_cv2 [(10, 10, 20, 20)] []) (video 3 5) 1 False =
   ([Number 5],
    Inr (\<lparr>frames = [], pos_frames = 3, frame_count = 5, nreads = 4, released = True\<rparr>,
         Some \<lparr>shape0 = 5, shape1 = 1,
               rows = [[(0, 0)], [(20, 20)], [(20, 20)], [(0, 0)], [(0, 0)]]\<rparr>))"
  by (simp add: run_simps)

lemma run_negative_stakes:
  "track_objects_in_video (box_cv2 [(10, 10, 20, 20)] []) (video 3 3) (- 1) False =
     ([Number 3], Inl ValueError)"
  by (simp add: run_simps)

lemma run_empty_source:
  "track_objects_in_video (box_cv2 [(10, 10, 20, 20)] []) (video 0 5) 1 True =
     ([Text ''Error: Could not read video frame.''],
      Inr (\<lparr>frames = [], pos_frames = 0, frame_count = 5, nreads = 1, released = False\<rparr>,
           None))"
  by (simp add: track_objects_in_video_def cap_read_def video_def)

lemma read_empty_source:
  "cap_read (video 0 5) =
     (None, \<lparr>frames = [], pos_frames = 0, frame_count = 5, nreads = 1, released = False\<rparr>)"
  by (simp add: cap_read_def video_def)

lemma run_after_failed_read:
  "track_objects_in_video (box_cv2 [(10, 10, 20, 20)] [])
     \<lparr>frames = [], pos_frames = 0, frame_count = 5, nreads = 1, released = False\<rparr> 1 True =
     ([Text ''Error: Could not read video frame.''],
      Inr (\<lparr>frames = [], pos_frames = 0, frame_count = 5, nreads = 2, released = False\<rparr>,
           None))"
  by (simp add: track_objects_in_video_def cap_read_def)

lemma unrectified_empty_source:
  "unrectified_to_waveform (box_cv2 [(10, 10, 20, 20)] []) (\<lambda>frame n. [((0, 0), (3, 4))])
     (video 0 5) 1 True =
     ([Text ''Error: Could not read video frame.''], Inl TypeError)"
  by (simp add: unrectified_to_waveform_def track_objects_in_video_def cap_read_def video_def
      Let_def)

lemma rect_empty_source:
  "rect_floats_video_to_waveform (box_cv2 [(10, 10, 20, 20)] []) (Capture (video 0 5)) 100 1 True =
     ([Text ''Error: Could not read video frame.''], Inl TypeError)"
  by (simp add: rect_floats_video_to_waveform_def run_empty_source)

section \<open>Calibration by a global scale\<close>

text \<open>
  Claim C1. For every trajectory that the tracking returns and every \<open>ppm > 0\<close>,
  \<^verbatim>\<open>rect_floats_video_to_waveform\<close> returns an array of the same shape whose every
  cell is the corresponding cell of the trajectory with both coordinates divided by
  \<open>ppm\<close>.
\<close>

theorem rect_calibration_elementwise:
  assumes "0 < ppm"
    and "track_objects_in_video env cap num_stakes sh = (out, Inr (cap', Some position))"
  shows "\<exists>w. rect_floats_video_to_waveform env (Capture cap) ppm num_stakes sh = (out, Inr w) \<and>
           shape0 w = shape0 position \<and> shape1 w = shape1 position \<and>
           (\<forall>f < shape0 position. \<forall>i < shape1 position.
              cell w f i =
                (Fin (fst (cell position f i) / ppm), Fin (snd (cell position f i) / ppm)))"
proof -
  from track_shape[OF assms(2)] have ws: "well_shaped position" by simp
  have "cell (divide_scalar position ppm) f i =
          (Fin (fst (cell position f i) / ppm), Fin (snd (cell position f i) / ppm))"
    if "f < shape0 position" "i < shape1 position" for f i
  proof -
    from ws that have "f < length (rows position)" "i < length (rows position ! f)"
      by (simp_all add: well_shaped_def list_all_length)
    from cell_divide_scalar[OF this] assms(1) show ?thesis by (simp add: np_true_divide_def)
  qed
  with rect_returns[OF assms(2)] show ?thesis by (simp add: divide_scalar_def)
qed

theorem rect_calibration_elementwise_witness:
  "(0::real) < 10 \<and>
   (\<exists>w. rect_floats_video_to_waveform (box_cv2 [(10, 10, 20, 20)] []) (Capture (video 3 3))
           10 1 False = ([Number 3], Inr w) \<and>
         shape0 w = 3 \<and> shape1 w = 1 \<and>
         cell w 1 0 = (Fin 2, Fin 2) \<and> cell w 0 0 = (Fin 0, Fin 0))"
  using rect_calibration_elementwise[OF _ run_one_marker, of 10]
  by (auto simp: cell_def)

section \<open>Calibration by a scale per marker\<close>

text \<open>
  Claim C2. The claim asks that cell \<open>(f, i)\<close> be divided by \<open>scale[i]\<close>. With two
  markers of scales 2 and 5 and centres (20, 20) and (110, 20) at frame 2,
  \<^verbatim>\<open>unrectified_to_waveform\<close> returns (10, 4) and (55, 4): the x coordinate of
  every marker is divided by the scale of marker 0 and the y coordinate by the scale
  of marker 1. With three markers the division raises ValueError.
\<close>

theorem per_marker_scale_meets_coordinate_axis:
  "unrectified_to_waveform (box_cv2 [(10, 10, 20, 20), (100, 10, 20, 20)] [])
     (\<lambda>frame n. [((0, 0), (0, 2)), ((0, 0), (3, 4))]) (video 3 3) 2 False =
     ([Number 3], Inr \<lparr>shape0 = 3, shape1 = 2,
        rows = [[(Fin 0, Fin 0), (Fin 0, Fin 0)], [(Fin 0, Fin 0), (Fin 0, Fin 0)],
                [(Fin 10, Fin 4), (Fin 55, Fin 4)]]\<rparr>) \<and>
   unrectified_to_waveform (box_cv2 [(10, 10, 20, 20), (100, 10, 20, 20), (200, 10, 20, 20)] [])
     (\<lambda>frame n. [((0, 0), (0, 2)), ((0, 0), (3, 4)), ((0, 0), (0, 2))]) (video 3 3) 3 False =
     ([Number 3], Inl ValueError)"
  by (simp add: unrectified_returns[OF read_video3 run_two_apart]
      unrectified_returns[OF read_video3 run_three_apart]
      derive_two derive_three divide_vector_def np_true_divide_def)

section \<open>One marker and the next\<close>

text \<open>
  Claim C3. The claim asks that the recorded positions of a marker be those of
  its tracker run alone on the same frames. The box of a tracked marker is drawn on
  the frame before the next tracker is updated with that frame. On the same three
  frames, the marker selected at (25, 10, 20, 20) is recorded at (35, 20) when it
  is tracked alone, and is lost, its cells left at (0, 0), when the marker at
  (10, 10, 20, 20) is tracked before it.
\<close>

theorem overlay_changes_next_marker:
  "track_objects_in_video (box_cv2 [(10, 10, 20, 20), (25, 10, 20, 20)] []) (video 3 3) 2 False =
   ([Number 3],
    Inr (\<lparr>frames = [], pos_frames = 3, frame_count = 3, nreads = 4, released = True\<rparr>,
         Some \<lparr>shape0 = 3, shape1 = 2,
               rows = [[(0, 0), (0, 0)], [(20, 20), (0, 0)], [(20, 20), (0, 0)]]\<rparr>)) \<and>
   track_objects_in_video (box_cv2 [(25, 10, 20, 20)] []) (video 3 3) 1 False =
   ([Number 3],
    Inr (\<lparr>frames = [], pos_frames = 3, frame_count = 3, nreads = 4, released = True\<rparr>,
         Some \<lparr>shape0 = 3, shape1 = 1, rows = [[(0, 0)], [(35, 20)], [(35, 20)]]\<rparr>))"
  by (simp add: run_two_markers run_second_marker_alone)

section \<open>A scale that is zero or negative\<close>

text \<open>
  Claim C4, as stated: calibration fails with an error of its own when the scale is
  zero or negative. It does not: with \<open>ppm = 0\<close> and with \<open>ppm = -10\<close> the division is
  performed and an array is returned.
\<close>

theorem nonpositive_scale_counterexample:
  "rect_floats_video_to_waveform (box_cv2 [(10, 10, 20, 20)] []) (Capture (video 3 3)) 0 1 False =
     ([Number 3], Inr \<lparr>shape0 = 3, shape1 = 1,
        rows = [[(NaN, NaN)], [(PosInf, PosInf)], [(PosInf, PosInf)]]\<rparr>) \<and>
   rect_floats_video_to_waveform (box_cv2 [(10, 10, 20, 20)] []) (Capture (video 3 3)) (- 10) 1 False =
     ([Number 3], Inr \<lparr>shape0 = 3, shape1 = 1,
        rows = [[(Fin 0, Fin 0)], [(Fin (- 2), Fin (- 2))], [(Fin (- 2), Fin (- 2))]]\<rparr>)"
  by (simp add: rect_zero_scale rect_negative_scale)

text \<open>
  Claim C4, amended. Calibration has no check of the scale: for every \<open>ppm\<close>, zero
  and negative included, a run whose tracking returns a trajectory returns the
  array of the same shape whose cells are the float64 quotients of the
  trajectory's cells by \<open>ppm\<close> (inf or nan where \<open>ppm\<close> is zero); in the per-marker
  mode a scale vector of one or two entries, whatever their values, gives an array
  of that shape as well.
\<close>

theorem calibration_divides_by_any_scale:
  assumes "track_objects_in_video env cap num_stakes sh = (out, Inr (cap', Some position))"
  shows "(\<exists>w. rect_floats_video_to_waveform env (Capture cap) ppm num_stakes sh = (out, Inr w) \<and>
            shape0 w = shape0 position \<and> shape1 w = shape1 position \<and>
            (\<forall>f < shape0 position. \<forall>i < shape1 position.
               cell w f i = (np_true_divide (fst (cell position f i)) ppm,
                             np_true_divide (snd (cell position f i)) ppm))) \<and>
         (cap_read cap0 = (frame, cap) \<and>
          (length (define_stakes frame num_stakes) = 1 \<or>
           length (define_stakes frame num_stakes) = 2) \<longrightarrow>
            (\<exists>w. unrectified_to_waveform env define_stakes cap0 num_stakes sh = (out, Inr w) \<and>
                  shape0 w = shape0 position \<and> shape1 w = shape1 position))"
proof (intro conjI impI)
  from track_shape[OF assms] have ws: "well_shaped position" by simp
  have "cell (divide_scalar position ppm) f i =
          (np_true_divide (fst (cell position f i)) ppm,
           np_true_divide (snd (cell position f i)) ppm)"
    if "f < shape0 position" "i < shape1 position" for f i
  proof -
    from ws that have "f < length (rows position)" "i < length (rows position ! f)"
      by (simp_all add: well_shaped_def list_all_length)
    from cell_divide_scalar[OF this] show ?thesis .
  qed
  with rect_returns[OF assms]
  show "\<exists>w. rect_floats_video_to_waveform env (Capture cap) ppm num_stakes sh = (out, Inr w) \<and>
            shape0 w = shape0 position \<and> shape1 w = shape1 position \<and>
            (\<forall>f < shape0 position. \<forall>i < shape1 position.
               cell w f i = (np_true_divide (fst (cell position f i)) ppm,
                             np_true_divide (snd (cell position f i)) ppm))"
    by (simp add: divide_scalar_def)
next
  assume a: "cap_read cap0 = (frame, cap) \<and>
          (length (define_stakes frame num_stakes) = 1 \<or>
           length (define_stakes frame num_stakes) = 2)"
  let ?ppm = "derive_scale (define_stakes frame num_stakes)"
  from a have "length ?ppm = 1 \<or> length ?ppm = 2" by (simp add: derive_scale_def)
  then have "\<exists>w. divide_vector position ?ppm = Inr w \<and>
                  shape0 w = shape0 position \<and> shape1 w = shape1 position"
    by (auto simp: divide_vector_def length_Suc_conv numeral_2_eq_2 split: list.splits)
  with unrectified_returns[OF conjunct1[OF a] assms]
  show "\<exists>w. unrectified_to_waveform env define_stakes cap0 num_stakes sh = (out, Inr w) \<and>
                  shape0 w = shape0 position \<and> shape1 w = shape1 position"
    by simp
qed

theorem calibration_divides_by_any_scale_witness:
  "cap_read (video 3 3) =
     (Some (0, []),
      \<lparr>frames = [(1, []), (2, [])], pos_frames = 1, frame_count = 3, nreads = 1,
         released = False\<rparr>) \<and>
   length [((0::real, 0::real), (0::real, 0::real))] = 1 \<and>
   (\<exists>w. rect_floats_video_to_waveform (box_cv2 [(10, 10, 20, 20)] [])
           (Capture \<lparr>frames = [(1, []), (2, [])], pos_frames = 1, frame_count = 3, nreads = 1,
                       released = False\<rparr>) 0 1 False = ([Number 3], Inr w) \<and>
         cell w 0 0 = (NaN, NaN) \<and> cell w 2 0 = (PosInf, PosInf)) \<and>
   (\<exists>w. unrectified_to_waveform (box_cv2 [(10, 10, 20, 20)] [])
           (\<lambda>frame n. [((0, 0), (0, 0))]) (video 3 3) 1 False = ([Number 3], Inr w) \<and>
         shape0 w = 3 \<and> shape1 w = 1)"
proof -
  note th = calibration_divides_by_any_scale[OF run_one_after_read, of 0 "video 3 3"
      "Some (0, [])" "\<lambda>frame n. [((0, 0), (0, 0))]"]
  from th obtain w where
    w: "rect_floats_video_to_waveform (box_cv2 [(10, 10, 20, 20)] [])
           (Capture \<lparr>frames = [(1, []), (2, [])], pos_frames = 1, frame_count = 3, nreads = 1,
                       released = False\<rparr>) 0 1 False = ([Number 3], Inr w)" and
    c: "\<And>f i. f < 3 \<Longrightarrow> i < 1 \<Longrightarrow>
          cell w f i =
            (np_true_divide (fst (cell \<lparr>shape0 = 3, shape1 = 1,
                rows = [[(0, 0)], [(0, 0)], [(20, 20)]]\<rparr> f i)) 0,
             np_true_divide (snd (cell \<lparr>shape0 = 3, shape1 = 1,
                rows = [[(0, 0)], [(0, 0)], [(20, 20)]]\<rparr> f i)) 0)"
    by auto
  from c[of 0 0] c[of 2 0] have "cell w 0 0 = (NaN, NaN)" "cell w 2 0 = (PosInf, PosInf)"
    by (simp_all add: cell_def np_true_divide_def)
  with w th read_video3 show ?thesis by simp
qed

section \<open>A marker that is lost\<close>

text \<open>
  Claim C5, as stated: the entry of a lost marker holds a value that can be told
  from a position (0, 0). It cannot: a run whose only marker is lost at frame 1 and
  a run whose only marker is tracked at frame 1 with its centre at the origin
  return the same array.
\<close>

theorem lost_cell_indistinguishable_counterexample:
  "run_passes (box_cv2 [(5, 5, 0, 0)] []) (video 2 2) 1 False = [(1, [(False, 5, 5, 0, 0)])] \<and>
   track_objects_in_video (box_cv2 [(5, 5, 0, 0)] []) (video 2 2) 1 False =
     ([Number 2],
      Inr (\<lparr>frames = [], pos_frames = 2, frame_count = 2, nreads = 3, released = True\<rparr>,
           Some \<lparr>shape0 = 2, shape1 = 1, rows = [[(0, 0)], [(0, 0)]]\<rparr>)) \<and>
   run_passes (box_cv2 [(- 4, - 4, 8, 8)] []) (video 2 2) 1 False =
     [(1, [(True, - 4, - 4, 8, 8)])] \<and>
   track_objects_in_video (box_cv2 [(- 4, - 4, 8, 8)] []) (video 2 2) 1 False =
     ([Number 2],
      Inr (\<lparr>frames = [], pos_frames = 2, frame_count = 2, nreads = 3, released = True\<rparr>,
           Some \<lparr>shape0 = 2, shape1 = 1, rows = [[(0, 0)], [(0, 0)]]\<rparr>))"
  by (simp add: passes_lost_marker passes_origin_marker run_lost_marker run_origin_marker)

text \<open>
  Claim C5, amended. In a run that returns an array, the entry for frame \<open>k\<close> and
  marker \<open>i\<close> is the centre of the box when the tracker reported success there, and
  is (0.0, 0.0), the value the array was created with, when it reported failure.
\<close>

theorem recorded_cell:
  assumes "track_objects_in_video env cap num_stakes sh = (out, Inr (cap', Some position))"
    and "(k, res) \<in> set (run_passes env cap num_stakes sh)"
    and "i < length res"
    and "k < frame_count cap"
  shows "cell position (nat k) i = (if fst (res ! i) then center (snd (res ! i)) else (0, 0))"
proof -
  from track_returns[OF assms(1)] obtain f fs p0 cap2 where
    fr: "frames cap = f # fs" and
    z: "np_zeros (frame_count cap) num_stakes = Inr p0" and
    l: "track_loop env sh 0 (advance cap fs) (init_trackers env f num_stakes) p0 =
          Inr (cap2, position)"
    by blast
  note ps = assms(2)[unfolded run_passes_Cons[OF fr]]
  from loop_passes_length[OF ps] assms(3) have i: "i < nat num_stakes" by simp
  from loop_passes_index[OF ps] assms(4) have "nat k < nat (frame_count cap)" by simp
  from cell_np_zeros[OF z this i] track_loop_cell[OF l np_zeros_well_shaped[OF z] ps assms(3)]
  show ?thesis by simp
qed

theorem recorded_cell_witness:
  "(1, [(True, 10, 10, 20, 20), (False, 25, 10, 20, 20)]) \<in>
     set (run_passes (box_cv2 [(10, 10, 20, 20), (25, 10, 20, 20)] []) (video 3 3) 2 False) \<and>
   (1::int) < frame_count (video 3 3) \<and>
   cell \<lparr>shape0 = 3, shape1 = 2,
         rows = [[(0, 0), (0, 0)], [(20, 20), (0, 0)], [(20, 20), (0, 0)]]\<rparr> (nat 1) 1 =
     (0::real, 0::real) \<and>
   cell \<lparr>shape0 = 3, shape1 = 2,
         rows = [[(0, 0), (0, 0)], [(20, 20), (0, 0)], [(20, 20), (0, 0)]]\<rparr> (nat 1) 0 =
     center (10, 10, 20, 20)"
proof -
  have m: "(1, [(True, 10, 10, 20, 20), (False, 25, 10, 20, 20)]) \<in>
     set (run_passes (box_cv2 [(10, 10, 20, 20), (25, 10, 20, 20)] []) (video 3 3) 2 False)"
    by (simp add: passes_two_markers)
  have t: "(1::int) < frame_count (video 3 3)" by (simp add: video_def)
  from recorded_cell[OF run_two_markers m _ t, of 1] recorded_cell[OF run_two_markers m _ t, of 0]
    m t
  show ?thesis by simp
qed

section \<open>The shape of the result\<close>

text \<open>
  Claim C6. The array that \<^verbatim>\<open>track_objects_in_video\<close> returns, and the array that
  \<^verbatim>\<open>rect_floats_video_to_waveform\<close> returns, has the reported frame count as its
  length and \<^verbatim>\<open>num_stakes\<close> as its second dimension, whatever the trackers
  reported.
\<close>

theorem trajectory_shape:
  "(track_objects_in_video env cap num_stakes sh = (out, Inr (cap', Some position)) \<longrightarrow>
      out = [Number (frame_count cap)] \<and>
      shape0 position = nat (frame_count cap) \<and> shape1 position = nat num_stakes \<and>
      length (rows position) = nat (frame_count cap) \<and>
      (\<forall>r \<in> set (rows position). length r = nat num_stakes)) \<and>
   (rect_floats_video_to_waveform env (Capture cap) ppm num_stakes sh = (out, Inr w) \<longrightarrow>
      out = [Number (frame_count cap)] \<and>
      shape0 w = nat (frame_count cap) \<and> shape1 w = nat num_stakes \<and>
      length (rows w) = nat (frame_count cap) \<and>
      (\<forall>r \<in> set (rows w). length r = nat num_stakes))"
proof (intro conjI impI)
  assume t: "track_objects_in_video env cap num_stakes sh = (out, Inr (cap', Some position))"
  from track_returns[OF t] show "out = [Number (frame_count cap)]" by blast
  from track_shape[OF t] show "shape0 position = nat (frame_count cap)"
    and "shape1 position = nat num_stakes"
    and "length (rows position) = nat (frame_count cap)"
    and "\<forall>r \<in> set (rows position). length r = nat num_stakes"
    by (simp_all add: well_shaped_def list_all_iff)
next
  assume r: "rect_floats_video_to_waveform env (Capture cap) ppm num_stakes sh = (out, Inr w)"
  then obtain cap2 position where
    t: "track_objects_in_video env cap num_stakes sh = (out, Inr (cap2, Some position))"
    by (auto simp: rect_floats_video_to_waveform_def Let_def
             split: prod.splits sum.splits option.splits)
  from rect_returns[OF t, of ppm] r have w: "w = divide_scalar position ppm" by simp
  from track_returns[OF t] show "out = [Number (frame_count cap)]" by blast
  from track_shape[OF t] w show "shape0 w = nat (frame_count cap)"
    and "shape1 w = nat num_stakes"
    and "length (rows w) = nat (frame_count cap)"
    and "\<forall>r \<in> set (rows w). length r = nat num_stakes"
    by (auto simp: well_shaped_def list_all_iff divide_scalar_def)
qed

theorem trajectory_shape_witness:
  "track_objects_in_video (box_cv2 [(10, 10, 20, 20)] []) (video 3 3) 1 False =
     ([Number 3],
      Inr (\<lparr>frames = [], pos_frames = 3, frame_count = 3, nreads = 4, released = True\<rparr>,
           Some \<lparr>shape0 = 3, shape1 = 1, rows = [[(0, 0)], [(20, 20)], [(20, 20)]]\<rparr>)) \<and>
   rect_floats_video_to_waveform (box_cv2 [(10, 10, 20, 20)] []) (Capture (video 3 3)) 10 1 False =
     ([Number 3], Inr \<lparr>shape0 = 3, shape1 = 1,
        rows = [[(Fin 0, Fin 0)], [(Fin 2, Fin 2)], [(Fin 2, Fin 2)]]\<rparr>) \<and>
   frame_count (video 3 3) = 3 \<and>
   length [[(0::real, 0::real)], [(20, 20)], [(20, 20)]] = nat (frame_count (video 3 3)) \<and>
   length [[(Fin 0, Fin 0)], [(Fin 2, Fin 2)], [(Fin 2, Fin 2)]] = nat (frame_count (video 3 3))"
  using trajectory_shape[of "box_cv2 [(10, 10, 20, 20)] []" "video 3 3" 1 False "[Number 3]"
      "\<lparr>frames = [], pos_frames = 3, frame_count = 3, nreads = 4, released = True\<rparr>"
      "\<lparr>shape0 = 3, shape1 = 1, rows = [[(0, 0)], [(20, 20)], [(20, 20)]]\<rparr>" 10
      "\<lparr>shape0 = 3, shape1 = 1, rows = [[(Fin 0, Fin 0)], [(Fin 2, Fin 2)], [(Fin 2, Fin 2)]]\<rparr>"]
    run_one_marker rect_one_marker
  by (simp add: video_def)

section \<open>The scale derived from reference points\<close>

text \<open>
  Claim C7. The scale derived from N pairs of reference points is a vector of
  length N whose i-th entry is the Euclidean distance between the two points of
  pair i (the distance of the plane, taken from the complex numbers); the points
  (0,0) and (3,4) give 5.
\<close>

theorem derive_scale_euclidean:
  "length (derive_scale all_points) = length all_points \<and>
   derive_scale all_points =
     map (\<lambda>(p, q). dist (Complex (fst p) (snd p)) (Complex (fst q) (snd q))) all_points \<and>
   derive_scale [((0, 0), (3, 4))] = [5]"
proof -
  have "sqrt ((0 - 3)\<^sup>2 + (0 - 4)\<^sup>2) = (5::real)"
    by (rule real_sqrt_unique) simp_all
  then show ?thesis
    by (simp add: derive_scale_def dist_complex_def cmod_def split_beta)
qed

section \<open>A source without a first frame\<close>

text \<open>
  Claim C8, as stated: when the first frame cannot be read, the run fails with a
  SourceError, without a retry. The code raises nothing there: on a source with no
  frame \<^verbatim>\<open>track_objects_in_video\<close> prints and returns \<open>None\<close>, an ordinary return; the
  exception of \<^verbatim>\<open>rect_floats_video_to_waveform\<close> is the TypeError of
  \<^verbatim>\<open>None / ppm\<close>; and \<^verbatim>\<open>unrectified_to_waveform\<close>, whose own first read has
  failed, reads a second time inside \<^verbatim>\<open>track_objects_in_video\<close>.
\<close>

theorem no_source_error_counterexample:
  "track_objects_in_video (box_cv2 [(10, 10, 20, 20)] []) (video 0 5) 1 True =
     ([Text ''Error: Could not read video frame.''],
      Inr (\<lparr>frames = [], pos_frames = 0, frame_count = 5, nreads = 1, released = False\<rparr>,
           None)) \<and>
   rect_floats_video_to_waveform (box_cv2 [(10, 10, 20, 20)] []) (Capture (video 0 5)) 100 1 True =
     ([Text ''Error: Could not read video frame.''], Inl TypeError) \<and>
   cap_read (video 0 5) =
     (None, \<lparr>frames = [], pos_frames = 0, frame_count = 5, nreads = 1, released = False\<rparr>) \<and>
   track_objects_in_video (box_cv2 [(10, 10, 20, 20)] [])
     \<lparr>frames = [], pos_frames = 0, frame_count = 5, nreads = 1, released = False\<rparr> 1 True =
     ([Text ''Error: Could not read video frame.''],
      Inr (\<lparr>frames = [], pos_frames = 0, frame_count = 5, nreads = 2, released = False\<rparr>,
           None)) \<and>
   unrectified_to_waveform (box_cv2 [(10, 10, 20, 20)] []) (\<lambda>frame n. [((0, 0), (3, 4))])
     (video 0 5) 1 True =
     ([Text ''Error: Could not read video frame.''], Inl TypeError)"
  by (intro conjI run_empty_source rect_empty_source read_empty_source run_after_failed_read
      unrectified_empty_source)

text \<open>
  Claim C8, amended. When its read of the first frame fails,
  \<^verbatim>\<open>track_objects_in_video\<close> prints its diagnostic and returns \<open>None\<close> by an ordinary
  return, after that one call of \<^verbatim>\<open>read()\<close> and with no tracker updated;
  \<^verbatim>\<open>rect_floats_video_to_waveform\<close> then ends in the TypeError of \<^verbatim>\<open>None / ppm\<close>.
  \<^verbatim>\<open>unrectified_to_waveform\<close> does not check its own first read: on a source of at
  most one frame it reads once itself and once more inside
  \<^verbatim>\<open>track_objects_in_video\<close>, where the read fails, the diagnostic is printed and
  the run ends in the same TypeError, \<^verbatim>\<open>define_stakes\<close> having returned. No result
  array is produced in any of these runs.
\<close>

theorem unreadable_first_frame:
  "(frames cap = [] \<longrightarrow>
      track_objects_in_video env cap num_stakes sh =
        ([Text ''Error: Could not read video frame.''],
         Inr (cap\<lparr>nreads := nreads cap + 1\<rparr>, None)) \<and>
      run_passes env cap num_stakes sh = [] \<and>
      rect_floats_video_to_waveform env (Capture cap) ppm num_stakes sh =
        ([Text ''Error: Could not read video frame.''], Inl TypeError)) \<and>
   (length (frames cap0) \<le> 1 \<longrightarrow>
      (\<exists>frame cap1.
         cap_read cap0 = (frame, cap1) \<and> nreads cap1 = nreads cap0 + 1 \<and>
         track_objects_in_video env cap1 num_stakes sh =
           ([Text ''Error: Could not read video frame.''],
            Inr (cap1\<lparr>nreads := nreads cap0 + 2\<rparr>, None)) \<and>
         unrectified_to_waveform env define_stakes cap0 num_stakes sh =
           ([Text ''Error: Could not read video frame.''], Inl TypeError)))"
proof (intro conjI impI)
  assume e: "frames cap = []"
  from track_unreadable[OF e]
  show t: "track_objects_in_video env cap num_stakes sh =
        ([Text ''Error: Could not read video frame.''],
         Inr (cap\<lparr>nreads := nreads cap + 1\<rparr>, None))" .
  from e show "run_passes env cap num_stakes sh = []"
    by (simp add: run_passes_def cap_read_Nil)
  from t show "rect_floats_video_to_waveform env (Capture cap) ppm num_stakes sh =
        ([Text ''Error: Could not read video frame.''], Inl TypeError)"
    by (simp add: rect_floats_video_to_waveform_def)
next
  assume l: "length (frames cap0) \<le> 1"
  obtain frame cap1 where r: "cap_read cap0 = (frame, cap1)" by (cases "cap_read cap0") auto
  from r l have e: "frames cap1 = []" and n: "nreads cap1 = nreads cap0 + 1"
    by (auto simp: cap_read_def split: list.splits)
  from track_unreadable[OF e, of env num_stakes sh] n
  have t: "track_objects_in_video env cap1 num_stakes sh =
           ([Text ''Error: Could not read video frame.''],
            Inr (cap1\<lparr>nreads := nreads cap0 + 2\<rparr>, None))" by simp
  with r have "unrectified_to_waveform env define_stakes cap0 num_stakes sh =
           ([Text ''Error: Could not read video frame.''], Inl TypeError)"
    by (simp add: unrectified_to_waveform_def Let_def)
  with r n t show "\<exists>frame cap1.
         cap_read cap0 = (frame, cap1) \<and> nreads cap1 = nreads cap0 + 1 \<and>
         track_objects_in_video env cap1 num_stakes sh =
           ([Text ''Error: Could not read video frame.''],
            Inr (cap1\<lparr>nreads := nreads cap0 + 2\<rparr>, None)) \<and>
         unrectified_to_waveform env define_stakes cap0 num_stakes sh =
           ([Text ''Error: Could not read video frame.''], Inl TypeError)"
    by blast
qed

theorem unreadable_first_frame_witness:
  "frames (video 0 5) = [] \<and>
   track_objects_in_video (box_cv2 [(10, 10, 20, 20)] []) (video 0 5) 1 True =
     ([Text ''Error: Could not read video frame.''],
      Inr (\<lparr>frames = [], pos_frames = 0, frame_count = 5, nreads = 1, released = False\<rparr>,
           None)) \<and>
   rect_floats_video_to_waveform (box_cv2 [(10, 10, 20, 20)] []) (Capture (video 0 5)) 100 1 True =
     ([Text ''Error: Could not read video frame.''], Inl TypeError) \<and>
   length (frames (video 1 1)) \<le> 1 \<and>
   cap_read (video 1 1) =
     (Some (0, []),
      \<lparr>frames = [], pos_frames = 1, frame_count = 1, nreads = 1, released = False\<rparr>) \<and>
   track_objects_in_video (box_cv2 [(10, 10, 20, 20)] [])
     \<lparr>frames = [], pos_frames = 1, frame_count = 1, nreads = 1, released = False\<rparr> 1 True =
     ([Text ''Error: Could not read video frame.''],
      Inr (\<lparr>frames = [], pos_frames = 1, frame_count = 1, nreads = 2, released = False\<rparr>,
           None)) \<and>
   unrectified_to_waveform (box_cv2 [(10, 10, 20, 20)] []) (\<lambda>frame n. [((0, 0), (3, 4))])
     (video 1 1) 1 True =
     ([Text ''Error: Could not read video frame.''], Inl TypeError)"
proof -
  have e: "frames (video 0 5) = []" and l: "length (frames (video 1 1)) \<le> 1"
    by (simp_all add: video_def)
  have r: "cap_read (video 1 1) =
     (Some (0, []),
      \<lparr>frames = [], pos_frames = 1, frame_count = 1, nreads = 1, released = False\<rparr>)"
    by (simp add: cap_read_def video_def upt_rec)
  have n: "nreads (video 0 5) = 0" "nreads (video 1 1) = 0" by (simp_all add: video_def)
  note th1 = unreadable_first_frame[of "video 0 5" "box_cv2 [(10, 10, 20, 20)] []" 1 True 100
      "video 1 1" "\<lambda>frame n. [((0, 0), (3, 4))]", THEN conjunct1, rule_format, OF e]
  note th2 = unreadable_first_frame[of "video 0 5" "box_cv2 [(10, 10, 20, 20)] []" 1 True 100
      "video 1 1" "\<lambda>frame n. [((0, 0), (3, 4))]", THEN conjunct2, rule_format, OF l]
  from th2 r have
    "track_objects_in_video (box_cv2 [(10, 10, 20, 20)] [])
       \<lparr>frames = [], pos_frames = 1, frame_count = 1, nreads = 1, released = False\<rparr> 1 True =
     ([Text ''Error: Could not read video frame.''],
      Inr (\<lparr>frames = [], pos_frames = 1, frame_count = 1, nreads = 2, released = False\<rparr>,
           None))"
    "unrectified_to_waveform (box_cv2 [(10, 10, 20, 20)] []) (\<lambda>frame n. [((0, 0), (3, 4))])
       (video 1 1) 1 True =
     ([Text ''Error: Could not read video frame.''], Inl TypeError)"
    by (auto simp: n)
  with th1 e l r show ?thesis by (simp add: video_def)
qed

section \<open>Writes and the bounds of the buffer\<close>

text \<open>
  Claim C9, as stated: every write of the loop uses a frame index below the
  reported frame count, also when that count is too small. With three decodable
  frames and a reported count of 1, the tracker succeeds at frames 1 and 2; the
  write for frame 1 is out of range and the run ends in IndexError.
\<close>

theorem undershoot_counterexample:
  "run_passes (box_cv2 [(10, 10, 20, 20)] []) (video 3 1) 1 False =
     [(1, [(True, 10, 10, 20, 20)]), (2, [(True, 10, 10, 20, 20)])] \<and>
   frame_count (video 3 1) = 1 \<and>
   track_objects_in_video (box_cv2 [(10, 10, 20, 20)] []) (video 3 1) 1 False =
     ([Number 1], Inl IndexError)"
  by (simp add: passes_undershoot run_undershoot) (simp add: video_def)

text \<open>
  Claim C9, amended. With a first frame that can be read: when the reported count
  or \<^verbatim>\<open>num_stakes\<close> is negative, \<^verbatim>\<open>np.zeros\<close> raises ValueError before the loop;
  otherwise the run returns an array exactly when every frame at which some tracker
  succeeds has an index in \<open>[0, total_frame_count)\<close>, and else, as when the count
  under-shoots, the write that is out of range is not performed and the run raises
  IndexError. A count that reaches or over-shoots the frames the capture decodes is
  tolerated: every frame of the loop then has its index in
  \<open>[0, total_frame_count)\<close> and the run returns an array.
\<close>

theorem writes_in_bounds_or_index_error:
  assumes "frames cap \<noteq> []"
  shows "(frame_count cap < 0 \<or> num_stakes < 0 \<longrightarrow>
            track_objects_in_video env cap num_stakes sh =
              ([Number (frame_count cap)], Inl ValueError)) \<and>
         (0 \<le> frame_count cap \<and> 0 \<le> num_stakes \<longrightarrow>
            (if \<forall>(k, res) \<in> set (run_passes env cap num_stakes sh).
                  (\<exists>r \<in> set res. fst r) \<longrightarrow> 0 \<le> k \<and> k < frame_count cap
             then \<exists>cap' position. track_objects_in_video env cap num_stakes sh =
                    ([Number (frame_count cap)], Inr (cap', Some position))
             else track_objects_in_video env cap num_stakes sh =
                    ([Number (frame_count cap)], Inl IndexError))) \<and>
         (0 \<le> num_stakes \<and> int (pos_frames cap + length (frames cap)) \<le> frame_count cap \<longrightarrow>
            (\<forall>(k, res) \<in> set (run_passes env cap num_stakes sh). 0 \<le> k \<and> k < frame_count cap) \<and>
            (\<exists>cap' position. track_objects_in_video env cap num_stakes sh =
               ([Number (frame_count cap)], Inr (cap', Some position))))"
proof (intro conjI impI)
  assume "frame_count cap < 0 \<or> num_stakes < 0"
  from track_negative_dimension[OF assms this]
  show "track_objects_in_video env cap num_stakes sh =
              ([Number (frame_count cap)], Inl ValueError)" .
next
  assume "0 \<le> frame_count cap \<and> 0 \<le> num_stakes"
  then have "0 \<le> frame_count cap" "0 \<le> num_stakes" by simp_all
  from track_in_bounds_iff[OF assms this]
  show "if \<forall>(k, res) \<in> set (run_passes env cap num_stakes sh).
                  (\<exists>r \<in> set res. fst r) \<longrightarrow> 0 \<le> k \<and> k < frame_count cap
             then \<exists>cap' position. track_objects_in_video env cap num_stakes sh =
                    ([Number (frame_count cap)], Inr (cap', Some position))
             else track_objects_in_video env cap num_stakes sh =
                    ([Number (frame_count cap)], Inl IndexError)" .
next
  assume a: "0 \<le> num_stakes \<and> int (pos_frames cap + length (frames cap)) \<le> frame_count cap"
  show inb: "\<forall>(k, res) \<in> set (run_passes env cap num_stakes sh). 0 \<le> k \<and> k < frame_count cap"
    using run_passes_upper[of _ _ env cap num_stakes sh] a by fastforce
  from a have "0 \<le> frame_count cap" "0 \<le> num_stakes" by simp_all
  from track_in_bounds_iff[OF assms this, of env sh] inb
  show "\<exists>cap' position. track_objects_in_video env cap num_stakes sh =
               ([Number (frame_count cap)], Inr (cap', Some position))"
    by (auto split: if_splits)
qed

theorem writes_in_bounds_or_index_error_witness:
  "frames (video 3 3) \<noteq> [] \<and> frames (video 3 1) \<noteq> [] \<and> frames (video 3 5) \<noteq> [] \<and>
   (- 1::int) < 0 \<and>
   track_objects_in_video (box_cv2 [(10, 10, 20, 20)] []) (video 3 3) (- 1) False =
     ([Number (frame_count (video 3 3))], Inl ValueError) \<and>
   0 \<le> frame_count (video 3 3) \<and> (0::int) \<le> 1 \<and>
   (\<exists>cap' position.
      track_objects_in_video (box_cv2 [(10, 10, 20, 20)] []) (video 3 3) 1 False =
        ([Number (frame_count (video 3 3))], Inr (cap', Some position))) \<and>
   0 \<le> frame_count (video 3 1) \<and>
   track_objects_in_video (box_cv2 [(10, 10, 20, 20)] []) (video 3 1) 1 False =
     ([Number (frame_count (video 3 1))], Inl IndexError) \<and>
   int (pos_frames (video 3 5) + length (frames (video 3 5))) \<le> frame_count (video 3 5) \<and>
   (\<exists>cap' position.
      track_objects_in_video (box_cv2 [(10, 10, 20, 20)] []) (video 3 5) 1 False =
        ([Number (frame_count (video 3 5))], Inr (cap', Some position)))"
proof -
  have a: "frames (video 3 3) \<noteq> []" "frames (video 3 1) \<noteq> []" "frames (video 3 5) \<noteq> []"
    by (simp_all add: video_def upt_rec)
  have b: "frame_count (video 3 3) = 3" "frame_count (video 3 1) = 1" "frame_count (video 3 5) = 5"
    "pos_frames (video 3 5) = 0" "length (frames (video 3 5)) = 3"
    by (simp_all add: video_def)
  from writes_in_bounds_or_index_error[OF a(1), of "- 1" "box_cv2 [(10, 10, 20, 20)] []" False]
  have 1: "track_objects_in_video (box_cv2 [(10, 10, 20, 20)] []) (video 3 3) (- 1) False =
     ([Number (frame_count (video 3 3))], Inl ValueError)" by simp
  from writes_in_bounds_or_index_error[OF a(1), of 1 "box_cv2 [(10, 10, 20, 20)] []" False]
  have 2: "\<exists>cap' position.
      track_objects_in_video (box_cv2 [(10, 10, 20, 20)] []) (video 3 3) 1 False =
        ([Number (frame_count (video 3 3))], Inr (cap', Some position))"
    by (simp add: b passes_one_marker)
  from writes_in_bounds_or_index_error[OF a(2), of 1 "box_cv2 [(10, 10, 20, 20)] []" False]
  have 3: "track_objects_in_video (box_cv2 [(10, 10, 20, 20)] []) (video 3 1) 1 False =
     ([Number (frame_count (video 3 1))], Inl IndexError)"
    by (simp add: b passes_undershoot)
  from writes_in_bounds_or_index_error[OF a(3), of 1 "box_cv2 [(10, 10, 20, 20)] []" False]
  have 4: "\<exists>cap' position.
      track_objects_in_video (box_cv2 [(10, 10, 20, 20)] []) (video 3 5) 1 False =
        ([Number (frame_count (video 3 5))], Inr (cap', Some position))"
    by (simp add: b)
  from a 1 2 3 4 show ?thesis by (simp add: b)
qed

section \<open>The row of frame 0\<close>

text \<open>
  Claim C10. In every run that returns an array, the loop records only frames of
  index 1 and above, and the row of frame 0 is as \<^verbatim>\<open>np.zeros\<close> created it.
\<close>

theorem frame_zero_row_unset:
  assumes "track_objects_in_video env cap num_stakes sh = (out, Inr (cap', Some position))"
  shows "(\<forall>(k, res) \<in> set (run_passes env cap num_stakes sh). 1 \<le> k) \<and>
         (0 < frame_count cap \<longrightarrow> rows position ! 0 = replicate (nat num_stakes) (0, 0))"
proof -
  from track_returns[OF assms] obtain f fs p0 cap2 where
    fr: "frames cap = f # fs" and
    z: "np_zeros (frame_count cap) num_stakes = Inr p0" and
    l: "track_loop env sh 0 (advance cap fs) (init_trackers env f num_stakes) p0 =
          Inr (cap2, position)"
    by blast
  have "1 \<le> k" if "(k, res) \<in> set (run_passes env cap num_stakes sh)" for k res
    using loop_passes_index[OF that[unfolded run_passes_Cons[OF fr]]] by simp
  moreover have "rows position ! 0 = replicate (nat num_stakes) (0, 0)" if t: "0 < frame_count cap"
  proof (rule nth_equalityI)
    from track_shape[OF assms] t show "length (rows position ! 0) = length (replicate (nat num_stakes) (0::real, 0::real))"
      by (simp add: well_shaped_def list_all_length)
  next
    fix i assume "i < length (rows position ! 0)"
    with track_shape[OF assms] t have i: "i < nat num_stakes"
      by (simp add: well_shaped_def list_all_length)
    from track_loop_rows_below[OF l np_zeros_well_shaped[OF z], of 0 i]
    have "cell position 0 i = cell p0 0 i" by simp
    also from cell_np_zeros[OF z _ i] t have "\<dots> = (0, 0)" by simp
    finally show "rows position ! 0 ! i = replicate (nat num_stakes) (0, 0) ! i"
      using i by (simp add: cell_def)
  qed
  ultimately show ?thesis by auto
qed

theorem frame_zero_row_unset_witness:
  "run_passes (box_cv2 [(10, 10, 20, 20)] []) (video 3 3) 1 False =
     [(1, [(True, 10, 10, 20, 20)]), (2, [(True, 10, 10, 20, 20)])] \<and>
   0 < frame_count (video 3 3) \<and>
   rows \<lparr>shape0 = 3, shape1 = 1, rows = [[(0::real, 0::real)], [(20, 20)], [(20, 20)]]\<rparr> ! 0 =
     replicate (nat 1) (0, 0)"
  using frame_zero_row_unset[OF run_one_marker] passes_one_marker
  by (simp add: video_def)

end
